theory Spec2Isabelle
  imports
    Complex_Main
    "HOL-Library.Multiset"
    "HOL-Library.Char_ord"
    "HOL-Library.List_Lexorder"
    "HOL-Library.Word"
begin

section \<open>Data model of core/instance.go\<close>

text \<open>
  Go's \<^verbatim>\<open>float64\<close> and \<^verbatim>\<open>float32\<close> values (prices, memory, throughput) are
  modelled as \<^typ>\<open>real\<close>: the code only adds, multiplies and compares them, and
  rounding, infinities and NaN are outside this model.  A Go \<^verbatim>\<open>*T\<close> that the code
  tests against \<^verbatim>\<open>nil\<close> is a \<^typ>\<open>'a option\<close>; a pointer the code dereferences
  without a test in every function is the plain value.  \<^verbatim>\<open>int64\<close> is
  \<^typ>\<open>64 word\<close> where the code does arithmetic on it and \<^typ>\<open>int\<close> where it only
  compares.
\<close>

record prices =
  onDemand :: real
  spot :: "string \<rightharpoonup> real"
  ebsSurcharge :: real
  premium :: real

record instanceTypeInformation =
  instanceType :: string
  vCPU :: int
  PhysicalProcessor :: string
  GPU :: int
  pricing :: prices
  memory :: real
  virtualizationTypes :: "string list"
  hasInstanceStore :: bool
  instanceStoreDeviceSize :: real
  instanceStoreDeviceCount :: int
  instanceStoreIsSSD :: bool
  hasEBSOptimization :: bool
  EBSThroughput :: real

record acceptableInstance =
  instanceTI :: instanceTypeInformation
  ai_price :: real

text \<open>\<^verbatim>\<open>ec2.Tag\<close>: the key is dereferenced everywhere, the value is passed on as a pointer.\<close>

record tag =
  Key :: string
  Value :: "string option"

text \<open>\<^verbatim>\<open>autoscaling.Instance\<close>, a member of a group.\<close>

record groupMember =
  member_InstanceId :: string
  member_ProtectedFromScaleIn :: bool

text \<open>\<^verbatim>\<open>autoscaling.LaunchTemplateSpecification\<close>.\<close>

record launchTemplateSpecification =
  LaunchTemplateId :: "string option"
  Version :: "string option"

text \<open>
  The fields of \<^verbatim>\<open>autoScalingGroup\<close> that instance.go reads.  The two ephemeral
  volume counts are the results of \<^verbatim>\<open>countLaunchConfigEphemeralVolumes\<close> and
  \<^verbatim>\<open>countLaunchTemplateEphemeralVolumes\<close>, whose code is in another file.
  \<open>OnDemandPriceMultiplier\<close> and \<open>GP2ConversionThreshold\<close> are the two fields of the
  group's \<^verbatim>\<open>config\<close> that instance.go reads.
\<close>

record autoScalingGroup =
  asg_name :: string
  asg_region_name :: string
  DesiredCapacity :: "64 word"
  MaxSize :: "64 word"
  LaunchTemplate :: "launchTemplateSpecification option"
  LaunchConfigurationName :: "string option"
  Instances :: "groupMember list"
  OnDemandPriceMultiplier :: real
  GP2ConversionThreshold :: int
  lcEphemeralVolumes :: int
  ltEphemeralVolumes :: int

text \<open>The fields of \<^verbatim>\<open>region\<close> and of its \<^verbatim>\<open>conf\<close> that instance.go reads.  The Go map
  from type name to type information is an association list (first binding wins).
  \<open>conf_AutoScalingConfig\<close> is \<^verbatim>\<open>conf.AutoScalingConfig\<close>, of which the two fields read
  in instance.go are kept; \<open>conf_OnDemandPriceMultiplier\<close> is
  \<^verbatim>\<open>conf.OnDemandPriceMultiplier\<close>.\<close>

record autoScalingConfig =
  cfg_OnDemandPriceMultiplier :: real
  cfg_GP2ConversionThreshold :: int

record region =
  region_name :: string
  instanceTypeInformation :: "(string \<times> instanceTypeInformation) list"
  BiddingPolicy :: string
  SpotPriceBufferPercentage :: real
  enabledASGs :: "autoScalingGroup list"
  conf_OnDemandPriceMultiplier :: real
  conf_AutoScalingConfig :: autoScalingConfig

text \<open>\<^verbatim>\<open>instance\<close>: an \<^verbatim>\<open>ec2.Instance\<close> with the additional fields.\<close>

record instance_t =
  InstanceId :: string
  AvailabilityZone :: string
  EbsOptimized :: "bool option"
  InstanceLifecycle :: "string option"
  StateName :: string
  VirtualizationType :: string
  Tags :: "tag list"
  typeInfo :: instanceTypeInformation
  price :: real
  inst_region :: region
  protected :: bool
  asg :: "autoScalingGroup option"

datatype error =
    CantTerminate string
  | ApiError string
  | NoTargetInstance string
  | TargetNotDescribed string
  | TargetMissing string
  | TargetShouldNotBeReplaced string
  | AttachFailed string
  | TerminateFailed string
  | NoCheaperSpotTypes
  | NilPointerDereference

section \<open>Instance registry (instanceManager)\<close>

type_synonym instanceMap = "string \<rightharpoonup> instance_t"

record instanceManager =
  catalog :: instanceMap

definition add :: "instanceManager \<Rightarrow> instance_t option \<Rightarrow> instanceManager" where
  "add im inst =
     (case inst of
        None \<Rightarrow> im
      | Some i \<Rightarrow> im\<lparr>catalog := (catalog im)(InstanceId i \<mapsto> i)\<rparr>)"

definition get :: "instanceManager \<Rightarrow> string \<Rightarrow> instance_t option" where
  "get im ident = catalog im ident"

definition count_im :: "instanceManager \<Rightarrow> int" where
  "count_im im = int (card (dom (catalog im)))"

section \<open>Cloud calls\<close>

text \<open>
  The calls instance.go issues on the EC2 and auto-scaling services, in the order
  issued.  The services answer through \<open>services\<close>: each answer may depend on the calls
  made so far.  A Go \<^verbatim>\<open>error\<close> result is an \<^typ>\<open>error option\<close>.
\<close>

datatype call =
    TerminateInstances "string list"
  | ScanInstance string
  | DescribeInstanceAttribute string string
  | SuspendProcesses string
  | ResumeProcesses string
  | SetAutoScalingMaxSize string "64 word"
  | AttachInstances string string bool
  | TerminateInstanceInAutoScalingGroup string bool bool

text \<open>
  \<open>ec2_TerminateInstances\<close> and \<open>ec2_DescribeInstanceAttribute\<close> are the SDK's answers
  (of the second only the \<^verbatim>\<open>DisableApiTermination.Value\<close> that the code reads, \<open>None\<close>
  when a pointer on the way to it is nil).  The other fields answer for functions of
  this package whose code is in other files: \<open>scanInstance\<close> of the region (describes an
  instance and registers it); the five methods that \<^verbatim>\<open>belongsToEnabledASG\<close> calls on
  its copy of the group, each returning the copy as it leaves it; the group's
  \<^verbatim>\<open>needReplaceOnDemandInstances\<close>, \<open>attachSpotInstance\<close> and
  \<open>terminateInstanceInAutoScalingGroup\<close>.  The list of calls holds what the functions of
  instance.go call on the SDK and the operations of the group and the region that they
  call by name below; what the five loading methods do on the cloud is not in it.
\<close>

record services =
  ec2_TerminateInstances :: "call list \<Rightarrow> string list \<Rightarrow> error option"
  ec2_DescribeInstanceAttribute :: "call list \<Rightarrow> string \<Rightarrow> error + bool option"
  scanInstance :: "call list \<Rightarrow> string \<Rightarrow> instanceManager \<Rightarrow> error + instanceManager"
  asg_scanInstances :: "call list \<Rightarrow> autoScalingGroup \<Rightarrow> autoScalingGroup"
  asg_loadDefaultConfig :: "call list \<Rightarrow> autoScalingGroup \<Rightarrow> autoScalingGroup"
  asg_loadConfigFromTags :: "call list \<Rightarrow> autoScalingGroup \<Rightarrow> autoScalingGroup"
  asg_loadLaunchConfiguration :: "call list \<Rightarrow> autoScalingGroup \<Rightarrow> autoScalingGroup"
  asg_loadLaunchTemplate :: "call list \<Rightarrow> autoScalingGroup \<Rightarrow> autoScalingGroup"
  needReplaceOnDemandInstances :: "call list \<Rightarrow> autoScalingGroup \<Rightarrow> bool"
  attachSpotInstance :: "call list \<Rightarrow> string \<Rightarrow> string \<Rightarrow> bool \<Rightarrow> error option"
  terminateInstanceInAutoScalingGroup :: "call list \<Rightarrow> string \<Rightarrow> bool \<Rightarrow> bool \<Rightarrow> error option"

subsection \<open>terminate\<close>

text \<open>The two state names are constants of the EC2 SDK.\<close>

definition InstanceStateNameTerminated :: string where
  "InstanceStateNameTerminated = ''terminated''"

definition InstanceStateNameShuttingDown :: string where
  "InstanceStateNameShuttingDown = ''shutting-down''"

definition canTerminate :: "instance_t \<Rightarrow> bool" where
  "canTerminate i \<longleftrightarrow>
     StateName i \<noteq> InstanceStateNameTerminated \<and>
     StateName i \<noteq> InstanceStateNameShuttingDown"

definition "terminate" :: "services \<Rightarrow> call list \<Rightarrow> instance_t \<Rightarrow> call list \<times> error option" where
  "terminate svc tr i =
     (if \<not> canTerminate i then (tr, Some (CantTerminate (InstanceId i)))
      else
        let err = ec2_TerminateInstances svc tr [InstanceId i]
        in (tr @ [TerminateInstances [InstanceId i]], err))"

section \<open>Compatibility filter\<close>

text \<open>\<^verbatim>\<open>strings.HasPrefix\<close> and \<^verbatim>\<open>strings.Contains\<close> of the Go library, on byte strings.\<close>

definition strings_HasPrefix :: "string \<Rightarrow> string \<Rightarrow> bool" where
  "strings_HasPrefix s pre \<longleftrightarrow> take (length pre) s = pre"

fun strings_Contains :: "string \<Rightarrow> string \<Rightarrow> bool" where
  "strings_Contains [] sub = (sub = [])"
| "strings_Contains (c # cs) sub =
     (strings_HasPrefix (c # cs) sub \<or> strings_Contains cs sub)"

text \<open>A read of the Go map \<^verbatim>\<open>pricing.spot\<close>: a missing zone reads as 0.\<close>

definition spotPriceIn :: "prices \<Rightarrow> string \<Rightarrow> real" where
  "spotPriceIn p az = (case spot p az of None \<Rightarrow> 0 | Some v \<Rightarrow> v)"

definition calculatePrice :: "instance_t \<Rightarrow> instanceTypeInformation \<Rightarrow> real" where
  "calculatePrice i spotCandidate =
     (let spotPrice = spotPriceIn (pricing spotCandidate) (AvailabilityZone i)
      in if EbsOptimized i = Some True
         then spotPrice + ebsSurcharge (pricing spotCandidate)
         else spotPrice)"

text \<open>Modelled from the spec: the constant \<^verbatim>\<open>Spot\<close>, declared in another file of the
  package; it is the lifecycle value that the spec writes spot.\<close>

definition Spot :: string where
  "Spot = ''spot''"

definition isSpot :: "instance_t \<Rightarrow> bool" where
  "isSpot i \<longleftrightarrow> InstanceLifecycle i \<noteq> None \<and> InstanceLifecycle i = Some Spot"

definition isPriceCompatible :: "instance_t \<Rightarrow> real \<Rightarrow> bool" where
  "isPriceCompatible i spotPrice =
     (if spotPrice = 0 then False
      else if spotPrice \<le> price i then True
      else False)"

definition isIntel :: "string \<Rightarrow> bool" where
  "isIntel cpuName \<longleftrightarrow>
     strings_Contains cpuName ''Intel'' \<or> strings_Contains cpuName ''Variable''"

definition isAMD :: "string \<Rightarrow> bool" where
  "isAMD cpuName \<longleftrightarrow> strings_Contains cpuName ''AMD''"

definition isARM :: "string \<Rightarrow> bool" where
  "isARM cpuName \<longleftrightarrow> strings_Contains cpuName ''AWS''"

definition isIntelCompatible :: "string \<Rightarrow> bool" where
  "isIntelCompatible cpuName \<longleftrightarrow> isIntel cpuName \<or> isAMD cpuName"

definition isSameArch :: "instance_t \<Rightarrow> instanceTypeInformation \<Rightarrow> bool" where
  "isSameArch i other =
     (let thisCPU = PhysicalProcessor (typeInfo i);
          otherCPU = PhysicalProcessor other
      in (isIntelCompatible thisCPU \<and> isIntelCompatible otherCPU) \<or>
         (isARM thisCPU \<and> isARM otherCPU))"

definition isClassCompatible :: "instance_t \<Rightarrow> instanceTypeInformation \<Rightarrow> bool" where
  "isClassCompatible i spotCandidate =
     (let current = typeInfo i
      in if isSameArch i spotCandidate \<and>
            vCPU spotCandidate \<ge> vCPU current \<and>
            memory spotCandidate \<ge> memory current \<and>
            GPU spotCandidate \<ge> GPU current
         then True else False)"

definition isEBSCompatible :: "instance_t \<Rightarrow> instanceTypeInformation \<Rightarrow> bool" where
  "isEBSCompatible i spotCandidate =
     (if EBSThroughput spotCandidate < EBSThroughput (typeInfo i) then False else True)"

definition isStorageCompatible :: "instance_t \<Rightarrow> instanceTypeInformation \<Rightarrow> int \<Rightarrow> bool" where
  "isStorageCompatible i spotCandidate attachedVolumes =
     (let existing = typeInfo i
      in if attachedVolumes = 0 \<or>
            (instanceStoreDeviceCount spotCandidate \<ge> attachedVolumes \<and>
             instanceStoreDeviceSize spotCandidate \<ge> instanceStoreDeviceSize existing \<and>
             (instanceStoreIsSSD spotCandidate \<or>
              instanceStoreIsSSD spotCandidate = instanceStoreIsSSD existing))
         then True else False)"

fun virtualizationLoop :: "string \<Rightarrow> string list \<Rightarrow> bool" where
  "virtualizationLoop current [] = False"
| "virtualizationLoop current (avt # rest) =
     (if (avt = ''PV'' \<and> current = ''paravirtual'') \<or> (avt = ''HVM'' \<and> current = ''hvm'')
      then True
      else virtualizationLoop current rest)"

definition isVirtualizationCompatible :: "instance_t \<Rightarrow> string list \<Rightarrow> bool" where
  "isVirtualizationCompatible i spotVirtualizationTypes =
     (let current = VirtualizationType i;
          svt = (if length spotVirtualizationTypes = 0 then [''HVM'']
                 else spotVirtualizationTypes)
      in virtualizationLoop current svt)"

text \<open>
  \<open>isAllowed\<close> matches with \<^verbatim>\<open>filepath.Match\<close> of the Go library and drops its error:
  \<open>fmatch pattern name\<close> stands for the boolean it returns.
\<close>

fun matchesSome :: "(string \<Rightarrow> string \<Rightarrow> bool) \<Rightarrow> string \<Rightarrow> string list \<Rightarrow> bool" where
  "matchesSome fmatch instType [] = False"
| "matchesSome fmatch instType (a # rest) =
     (if fmatch a instType then True else matchesSome fmatch instType rest)"

definition isAllowed ::
  "(string \<Rightarrow> string \<Rightarrow> bool) \<Rightarrow> string \<Rightarrow> string list \<Rightarrow> string list \<Rightarrow> bool" where
  "isAllowed fmatch instType allowedList disallowedList =
     (if length allowedList > 0 then matchesSome fmatch instType allowedList
      else if length disallowedList > 0 then \<not> matchesSome fmatch instType disallowedList
      else True)"

definition min_int :: "int \<Rightarrow> int \<Rightarrow> int" where
  "min_int x y = (if x < y then x else y)"

definition max_int :: "int \<Rightarrow> int \<Rightarrow> int" where
  "max_int x y = (if x > y then x else y)"

section \<open>Ranking: getCompatibleSpotInstanceTypesListSortedAscendingByPrice\<close>

text \<open>The condition under which the loop appends a candidate: all six checks pass.\<close>

definition accepted ::
  "(string \<Rightarrow> string \<Rightarrow> bool) \<Rightarrow> instance_t \<Rightarrow> string list \<Rightarrow> string list \<Rightarrow> int \<Rightarrow>
   instanceTypeInformation \<Rightarrow> bool" where
  "accepted fmatch i allowedList disallowedList attachedVolumesNumber candidate \<longleftrightarrow>
     isAllowed fmatch (instanceType candidate) allowedList disallowedList \<and>
     isPriceCompatible i (calculatePrice i candidate) \<and>
     isEBSCompatible i candidate \<and>
     isClassCompatible i candidate \<and>
     isStorageCompatible i candidate attachedVolumesNumber \<and>
     isVirtualizationCompatible i (virtualizationTypes candidate)"

text \<open>The keys of the map, sorted by \<^verbatim>\<open>sort.Strings\<close> (bytewise lexicographic), and the
  candidates read from the map in that order.\<close>

definition sortedKeys :: "(string \<times> instanceTypeInformation) list \<Rightarrow> string list" where
  "sortedKeys tbl = sort (remdups (map fst tbl))"

definition candidatesInKeyOrder ::
  "(string \<times> instanceTypeInformation) list \<Rightarrow> instanceTypeInformation list" where
  "candidatesInKeyOrder tbl = List.map_filter (map_of tbl) (sortedKeys tbl)"

fun findAcceptable ::
  "(string \<Rightarrow> string \<Rightarrow> bool) \<Rightarrow> instance_t \<Rightarrow> string list \<Rightarrow> string list \<Rightarrow> int \<Rightarrow>
   instanceTypeInformation list \<Rightarrow> acceptableInstance list \<Rightarrow> acceptableInstance list" where
  "findAcceptable fmatch i al dl vols [] acceptableInstanceTypes = acceptableInstanceTypes"
| "findAcceptable fmatch i al dl vols (candidate # rest) acceptableInstanceTypes =
     (let candidatePrice = calculatePrice i candidate
      in if accepted fmatch i al dl vols candidate
         then findAcceptable fmatch i al dl vols rest
                (acceptableInstanceTypes @
                   [\<lparr>instanceTI = candidate, ai_price = candidatePrice\<rparr>])
         else findAcceptable fmatch i al dl vols rest acceptableInstanceTypes)"

definition acceptableInstanceTypesOf ::
  "(string \<Rightarrow> string \<Rightarrow> bool) \<Rightarrow> instance_t \<Rightarrow> autoScalingGroup \<Rightarrow> string list \<Rightarrow> string list \<Rightarrow>
   acceptableInstance list" where
  "acceptableInstanceTypesOf fmatch i a allowedList disallowedList =
     (let current = typeInfo i;
          lcMappings = lcEphemeralVolumes a;
          ltMappings = ltEphemeralVolumes a;
          usedMappings = max_int lcMappings ltMappings;
          attachedVolumesNumber = min_int usedMappings (instanceStoreDeviceCount current)
      in findAcceptable fmatch i allowedList disallowedList attachedVolumesNumber
           (candidatesInKeyOrder (instanceTypeInformation (inst_region i))) [])"

text \<open>
  \<^verbatim>\<open>sort.Slice\<close> of the Go library, by its documented contract: it sorts the slice by
  the given less function and is not guaranteed to be stable.  \<open>sort_Slice lessf xs ys\<close>
  holds when \<open>ys\<close> is a possible content of the slice after the call on \<open>xs\<close>.
\<close>

definition sort_Slice :: "('a \<Rightarrow> 'a \<Rightarrow> bool) \<Rightarrow> 'a list \<Rightarrow> 'a list \<Rightarrow> bool" where
  "sort_Slice lessf xs ys \<longleftrightarrow> mset ys = mset xs \<and> sorted_wrt (\<lambda>a b. \<not> lessf b a) ys"

text \<open>
  The function as a relation between its inputs and a possible result: the order of
  the result is as determined as \<open>sort_Slice\<close> makes it.  A nil \<^verbatim>\<open>i.asg\<close> is a nil
  pointer dereference.
\<close>

definition getCompatibleSpotInstanceTypesListSortedAscendingByPrice ::
  "(string \<Rightarrow> string \<Rightarrow> bool) \<Rightarrow> instance_t \<Rightarrow> string list \<Rightarrow> string list \<Rightarrow>
   error + instanceTypeInformation list \<Rightarrow> bool" where
  "getCompatibleSpotInstanceTypesListSortedAscendingByPrice fmatch i allowedList disallowedList r =
     (case asg i of
        None \<Rightarrow> r = Inl NilPointerDereference
      | Some a \<Rightarrow>
          (let acceptableInstanceTypes =
                 acceptableInstanceTypesOf fmatch i a allowedList disallowedList
           in if acceptableInstanceTypes \<noteq> []
              then \<exists>sorted_ais.
                     sort_Slice (\<lambda>x y. ai_price x < ai_price y) acceptableInstanceTypes sorted_ais \<and>
                     r = Inr (map instanceTI sorted_ais)
              else r = Inl NoCheaperSpotTypes))"

section \<open>Bid pricer\<close>

text \<open>Modelled from the spec: the constant \<^verbatim>\<open>DefaultBiddingPolicy\<close>, declared in another
  file of the package; it is the policy that the spec calls normal.\<close>

definition DefaultBiddingPolicy :: string where
  "DefaultBiddingPolicy = ''normal''"

definition getPriceToBid :: "instance_t \<Rightarrow> real \<Rightarrow> real \<Rightarrow> real \<Rightarrow> real" where
  "getPriceToBid i baseOnDemandPrice currentSpotPrice spotPremium =
     (if BiddingPolicy (inst_region i) = DefaultBiddingPolicy then baseOnDemandPrice
      else
        let bufferPrice =
              min baseOnDemandPrice
                ((currentSpotPrice - spotPremium) *
                   (1.0 + SpotPriceBufferPercentage (inst_region i) / 100.0) + spotPremium)
        in bufferPrice)"

section \<open>Block-device mappings and the volume-type rewrite\<close>

definition unsupportedIO2Regions :: "string list" where
  "unsupportedIO2Regions =
     [''us-gov-west-1'', ''us-gov-east-1'', ''sa-east-1'', ''cn-north-1'', ''cn-northwest-1'',
      ''eu-south-1'', ''af-south-1'', ''eu-west-3'', ''ap-northeast-3'']"

fun supportedIO2regionLoop :: "string \<Rightarrow> string list \<Rightarrow> bool" where
  "supportedIO2regionLoop rg [] = True"
| "supportedIO2regionLoop rg (r # rest) =
     (if rg = r then False else supportedIO2regionLoop rg rest)"

definition supportedIO2region :: "string \<Rightarrow> bool" where
  "supportedIO2region rg = supportedIO2regionLoop rg unsupportedIO2Regions"

text \<open>
  The EBS part of a mapping.  \<^verbatim>\<open>autoscaling.Ebs\<close>, \<^verbatim>\<open>ec2.LaunchTemplateEbsBlockDevice\<close>
  and \<^verbatim>\<open>ec2.EbsBlockDevice\<close> have these fields with the same pointer types, so one
  record serves the three sources and the result.
\<close>

record ebsBlockDevice =
  DeleteOnTermination :: "bool option"
  Encrypted :: "bool option"
  Iops :: "int option"
  SnapshotId :: "string option"
  VolumeSize :: "int option"
  VolumeType :: "string option"

text \<open>A mapping; \<^verbatim>\<open>NoDevice\<close> is a \<^verbatim>\<open>*bool\<close> in a launch configuration and a
  \<^verbatim>\<open>*string\<close> in a launch template and an image.\<close>

record 'nd blockDeviceMapping =
  DeviceName :: "string option"
  VirtualName :: "string option"
  Ebs :: "ebsBlockDevice option"
  NoDevice :: "'nd option"

text \<open>
  The three rewrites.  Each dereferences its group argument first, so a nil group is
  a nil pointer dereference.  Only the launch-configuration one tests the volume type
  against nil; the other two dereference it at once.  All three dereference the volume
  size once the type is gp2 (and the io1 branch was not taken).
\<close>

definition convertLaunchConfigurationEBSVolumeType ::
  "ebsBlockDevice \<Rightarrow> autoScalingGroup option \<Rightarrow> error + string option" where
  "convertLaunchConfigurationEBSVolumeType ebs a =
     (case a of
        None \<Rightarrow> Inl NilPointerDereference
      | Some g \<Rightarrow>
          (let r = asg_region_name g in
           case VolumeType ebs of
             None \<Rightarrow> Inr None
           | Some vt \<Rightarrow>
               if vt = ''io1'' \<and> supportedIO2region r then Inr (Some ''io2'')
               else if vt = ''gp2'' then
                 (case VolumeSize ebs of
                    None \<Rightarrow> Inl NilPointerDereference
                  | Some sz \<Rightarrow>
                      if sz \<le> GP2ConversionThreshold g then Inr (Some ''gp3'')
                      else Inr (VolumeType ebs))
               else Inr (VolumeType ebs)))"

definition convertLaunchTemplateEBSVolumeType ::
  "ebsBlockDevice \<Rightarrow> autoScalingGroup option \<Rightarrow> error + string option" where
  "convertLaunchTemplateEBSVolumeType ebs a =
     (case a of
        None \<Rightarrow> Inl NilPointerDereference
      | Some g \<Rightarrow>
          (let r = asg_region_name g in
           case VolumeType ebs of
             None \<Rightarrow> Inl NilPointerDereference
           | Some vt \<Rightarrow>
               if vt = ''io1'' \<and> supportedIO2region r then Inr (Some ''io2'')
               else if vt = ''gp2'' then
                 (case VolumeSize ebs of
                    None \<Rightarrow> Inl NilPointerDereference
                  | Some sz \<Rightarrow>
                      if sz \<le> GP2ConversionThreshold g then Inr (Some ''gp3'')
                      else Inr (VolumeType ebs))
               else Inr (VolumeType ebs)))"

definition convertImageEBSVolumeType ::
  "ebsBlockDevice \<Rightarrow> autoScalingGroup option \<Rightarrow> error + string option" where
  "convertImageEBSVolumeType ebs a =
     (case a of
        None \<Rightarrow> Inl NilPointerDereference
      | Some g \<Rightarrow>
          (let r = asg_region_name g in
           case VolumeType ebs of
             None \<Rightarrow> Inl NilPointerDereference
           | Some vt \<Rightarrow>
               if vt = ''io1'' \<and> supportedIO2region r then Inr (Some ''io2'')
               else if vt = ''gp2'' then
                 (case VolumeSize ebs of
                    None \<Rightarrow> Inl NilPointerDereference
                  | Some sz \<Rightarrow>
                      if sz \<le> GP2ConversionThreshold g then Inr (Some ''gp3'')
                      else Inr (VolumeType ebs))
               else Inr (VolumeType ebs)))"

text \<open>
  The three conversions of a list of mappings share one loop; they differ in the
  rewrite they call and in how \<^verbatim>\<open>NoDevice\<close> is read.  The EBS part is converted before
  \<^verbatim>\<open>NoDevice\<close> is looked at.  The result \<open>[]\<close> stands for the nil slice returned when no
  mapping is kept.
\<close>

fun convertBlockDeviceMappingsLoop ::
  "(ebsBlockDevice \<Rightarrow> autoScalingGroup option \<Rightarrow> error + string option) \<Rightarrow> ('nd option \<Rightarrow> bool) \<Rightarrow>
   autoScalingGroup option \<Rightarrow> 'nd blockDeviceMapping list \<Rightarrow> unit blockDeviceMapping list \<Rightarrow>
   error + unit blockDeviceMapping list" where
  "convertBlockDeviceMappingsLoop conv skip a [] bds = Inr bds"
| "convertBlockDeviceMappingsLoop conv skip a (BDM # rest) bds =
     (case (case Ebs BDM of
              None \<Rightarrow> Inr None
            | Some e \<Rightarrow>
                (case conv e a of
                   Inl err \<Rightarrow> Inl err
                 | Inr vt \<Rightarrow>
                     Inr (Some \<lparr>DeleteOnTermination = DeleteOnTermination e,
                                Encrypted = Encrypted e, Iops = Iops e,
                                SnapshotId = SnapshotId e, VolumeSize = VolumeSize e,
                                VolumeType = vt\<rparr>))) of
        Inl err \<Rightarrow> Inl err
      | Inr ec2Ebs \<Rightarrow>
          (let ec2BDM = \<lparr>DeviceName = DeviceName BDM, VirtualName = VirtualName BDM,
                         Ebs = ec2Ebs, NoDevice = None\<rparr>
           in if skip (NoDevice BDM) then convertBlockDeviceMappingsLoop conv skip a rest bds
              else convertBlockDeviceMappingsLoop conv skip a rest (bds @ [ec2BDM])))"

definition convertLaunchConfigurationBlockDeviceMappings ::
  "instance_t \<Rightarrow> bool blockDeviceMapping list \<Rightarrow> error + unit blockDeviceMapping list" where
  "convertLaunchConfigurationBlockDeviceMappings i BDMs =
     convertBlockDeviceMappingsLoop convertLaunchConfigurationEBSVolumeType
       (\<lambda>nd. nd = Some True) (asg i) BDMs []"

definition convertLaunchTemplateBlockDeviceMappings ::
  "instance_t \<Rightarrow> string blockDeviceMapping list \<Rightarrow> error + unit blockDeviceMapping list" where
  "convertLaunchTemplateBlockDeviceMappings i BDMs =
     convertBlockDeviceMappingsLoop convertLaunchTemplateEBSVolumeType
       (\<lambda>nd. nd = Some ''true'') (asg i) BDMs []"

definition convertImageBlockDeviceMappings ::
  "instance_t \<Rightarrow> string blockDeviceMapping list \<Rightarrow> error + unit blockDeviceMapping list" where
  "convertImageBlockDeviceMappings i BDMs =
     convertBlockDeviceMappingsLoop convertImageEBSVolumeType
       (\<lambda>nd. nd = Some ''true'') (asg i) BDMs []"

section \<open>Tags of the spot replacement\<close>

fun copyTagsLoop :: "tag list \<Rightarrow> tag list \<Rightarrow> tag list" where
  "copyTagsLoop [] tags = tags"
| "copyTagsLoop (t # rest) tags =
     (if \<not> strings_HasPrefix (Key t) ''aws:'' \<and>
         Key t \<noteq> ''launched-by-autospotting'' \<and>
         Key t \<noteq> ''launched-for-asg'' \<and>
         Key t \<noteq> ''launched-for-replacing-instance'' \<and>
         Key t \<noteq> ''LaunchTemplateID'' \<and>
         Key t \<noteq> ''LaunchTemplateVersion'' \<and>
         Key t \<noteq> ''LaunchConfiguationName''
      then copyTagsLoop rest (tags @ [t])
      else copyTagsLoop rest tags)"

record tagSpecification =
  ResourceType :: string
  spec_Tags :: "tag list"

definition generateTagsList :: "instance_t \<Rightarrow> error + tagSpecification list" where
  "generateTagsList i =
     (case asg i of
        None \<Rightarrow> Inl NilPointerDereference
      | Some a \<Rightarrow>
          (let tags0 =
                 [\<lparr>Key = ''launched-by-autospotting'', Value = Some ''true''\<rparr>,
                  \<lparr>Key = ''launched-for-asg'', Value = Some (asg_name a)\<rparr>,
                  \<lparr>Key = ''launched-for-replacing-instance'', Value = Some (InstanceId i)\<rparr>];
               tags1 =
                 (case LaunchTemplate a of
                    Some lt \<Rightarrow>
                      tags0 @
                        [\<lparr>Key = ''LaunchTemplateID'', Value = LaunchTemplateId lt\<rparr>,
                         \<lparr>Key = ''LaunchTemplateVersion'', Value = Version lt\<rparr>]
                  | None \<Rightarrow>
                      (case LaunchConfigurationName a of
                         Some n \<Rightarrow>
                           tags0 @ [\<lparr>Key = ''LaunchConfigurationName'', Value = Some n\<rparr>]
                       | None \<Rightarrow> tags0))
           in Inr [\<lparr>ResourceType = ''instance'', spec_Tags = copyTagsLoop (Tags i) tags1\<rparr>]))"

text \<open>The keys the spec lists as reserved.\<close>

definition reservedKeys :: "string list" where
  "reservedKeys =
     [''launched-by-autospotting'', ''launched-for-asg'', ''launched-for-replacing-instance'',
      ''LaunchTemplateID'', ''LaunchTemplateVersion'', ''LaunchConfigurationName'']"

section \<open>Swap\<close>

fun getReplacementTargetInstanceID_loop :: "tag list \<Rightarrow> string option" where
  "getReplacementTargetInstanceID_loop [] = None"
| "getReplacementTargetInstanceID_loop (t # rest) =
     (if Key t = ''launched-for-replacing-instance'' then Value t
      else getReplacementTargetInstanceID_loop rest)"

definition getReplacementTargetInstanceID :: "instance_t \<Rightarrow> string option" where
  "getReplacementTargetInstanceID i = getReplacementTargetInstanceID_loop (Tags i)"

definition isProtectedFromTermination ::
  "services \<Rightarrow> call list \<Rightarrow> instance_t \<Rightarrow> call list \<times> bool \<times> error option" where
  "isProtectedFromTermination svc tr i =
     (let tr' = tr @ [DescribeInstanceAttribute ''disableApiTermination'' (InstanceId i)]
      in case ec2_DescribeInstanceAttribute svc tr (InstanceId i) of
           Inl err \<Rightarrow> (tr', True, Some err)
         | Inr v \<Rightarrow> if v = Some True then (tr', True, None) else (tr', False, None))"

fun isProtectedFromScaleIn_loop :: "string \<Rightarrow> groupMember list \<Rightarrow> bool" where
  "isProtectedFromScaleIn_loop ident [] = False"
| "isProtectedFromScaleIn_loop ident (m # rest) =
     (if member_InstanceId m = ident \<and> member_ProtectedFromScaleIn m then True
      else isProtectedFromScaleIn_loop ident rest)"

definition isProtectedFromScaleIn :: "instance_t \<Rightarrow> bool" where
  "isProtectedFromScaleIn i =
     (case asg i of
        None \<Rightarrow> False
      | Some a \<Rightarrow> isProtectedFromScaleIn_loop (InstanceId i) (Instances a))"

fun belongsToAnASG_loop :: "tag list \<Rightarrow> bool \<times> string option" where
  "belongsToAnASG_loop [] = (False, None)"
| "belongsToAnASG_loop (t # rest) =
     (if Key t = ''aws:autoscaling:groupName'' then (True, Value t)
      else belongsToAnASG_loop rest)"

definition belongsToAnASG :: "instance_t \<Rightarrow> bool \<times> string option" where
  "belongsToAnASG i = belongsToAnASG_loop (Tags i)"

text \<open>
  \<open>belongsToEnabledASG\<close> returns its boolean and the record as it leaves it: on the
  first enabled group of the name in the tag it loads a copy of the group, stores it in
  the record and sets the record's price.  The comparison dereferences the tag's value,
  so a nil value is a nil pointer dereference once there is a group to compare with.
\<close>

fun belongsToEnabledASG_loop ::
  "services \<Rightarrow> call list \<Rightarrow> instance_t \<Rightarrow> string option \<Rightarrow> autoScalingGroup list \<Rightarrow>
   error + bool \<times> instance_t" where
  "belongsToEnabledASG_loop svc tr i asgName [] = Inr (False, i)"
| "belongsToEnabledASG_loop svc tr i asgName (g # rest) =
     (case asgName of
        None \<Rightarrow> Inl NilPointerDereference
      | Some n \<Rightarrow>
          if asg_name g = n then
            (let c = conf_AutoScalingConfig (inst_region i);
                 g0 = g\<lparr>OnDemandPriceMultiplier := cfg_OnDemandPriceMultiplier c,
                        GP2ConversionThreshold := cfg_GP2ConversionThreshold c\<rparr>;
                 g1 = asg_scanInstances svc tr g0;
                 g2 = asg_loadDefaultConfig svc tr g1;
                 g3 = asg_loadConfigFromTags svc tr g2;
                 g4 = asg_loadLaunchConfiguration svc tr g3;
                 g5 = asg_loadLaunchTemplate svc tr g4
             in Inr (True,
                  i\<lparr>asg := Some g5,
                    price := onDemand (pricing (typeInfo i)) /
                               conf_OnDemandPriceMultiplier (inst_region i) *
                               OnDemandPriceMultiplier g5\<rparr>))
          else belongsToEnabledASG_loop svc tr i asgName rest)"

definition belongsToEnabledASG ::
  "services \<Rightarrow> call list \<Rightarrow> instance_t \<Rightarrow> error + bool \<times> instance_t" where
  "belongsToEnabledASG svc tr i =
     (case belongsToAnASG i of
        (belongs, asgName) \<Rightarrow>
          if \<not> belongs then Inr (False, i)
          else belongsToEnabledASG_loop svc tr i asgName (enabledASGs (inst_region i)))"

definition asgNeedsReplacement :: "services \<Rightarrow> call list \<Rightarrow> instance_t \<Rightarrow> error + bool" where
  "asgNeedsReplacement svc tr i =
     (case asg i of
        None \<Rightarrow> Inl NilPointerDereference
      | Some a \<Rightarrow> Inr (needReplaceOnDemandInstances svc tr a))"

text \<open>
  \<open>shouldBeReplacedWithSpot\<close>: the termination protection is queried first, then the
  conjunction is evaluated from the left and stops at the first false conjunct, so the
  later conjuncts read the record as \<open>belongsToEnabledASG\<close> left it.  The result holds
  the calls, the record as the function leaves it, and the boolean or the panic.
\<close>

definition shouldBeReplacedWithSpot ::
  "services \<Rightarrow> call list \<Rightarrow> instance_t \<Rightarrow> call list \<times> instance_t \<times> (error + bool)" where
  "shouldBeReplacedWithSpot svc tr i =
     (case isProtectedFromTermination svc tr i of
        (tr', protT, _) \<Rightarrow>
          (case belongsToEnabledASG svc tr' i of
             Inl e \<Rightarrow> (tr', i, Inl e)
           | Inr (belongs, i1) \<Rightarrow>
               if \<not> belongs then (tr', i1, Inr False)
               else
                 (case asgNeedsReplacement svc tr' i1 of
                    Inl e \<Rightarrow> (tr', i1, Inl e)
                  | Inr needs \<Rightarrow>
                      (tr', i1,
                       Inr (needs \<and> \<not> isSpot i1 \<and> \<not> isProtectedFromScaleIn i1 \<and>
                            \<not> protT)))))"

text \<open>
  The calls that the two \<^verbatim>\<open>defer\<close> statements of the swap have registered, in the
  order in which they run when the function returns (last registered first).
\<close>

definition deferredCalls :: "autoScalingGroup \<Rightarrow> call list" where
  "deferredCalls a =
     (if DesiredCapacity a = MaxSize a
      then [SetAutoScalingMaxSize (asg_name a) (MaxSize a)] else []) @
     [ResumeProcesses (asg_name a)]"

text \<open>
  The swap.  The target record is the one the registry holds (a pointer in the code), so
  what \<open>shouldBeReplacedWithSpot\<close> changes in it is changed in the registry as well.
\<close>

definition swapWithGroupMember ::
  "services \<Rightarrow> call list \<Rightarrow> instanceManager \<Rightarrow> instance_t \<Rightarrow> autoScalingGroup \<Rightarrow>
   call list \<times> instanceManager \<times> (error + instance_t)" where
  "swapWithGroupMember svc tr reg i a =
     (case getReplacementTargetInstanceID i of
        None \<Rightarrow> (tr, reg, Inl (NoTargetInstance (InstanceId i)))
      | Some odInstanceID \<Rightarrow>
          (case scanInstance svc tr odInstanceID reg of
             Inl err \<Rightarrow>
               (tr @ [ScanInstance odInstanceID], reg, Inl (TargetNotDescribed odInstanceID))
           | Inr reg1 \<Rightarrow>
               (let tr1 = tr @ [ScanInstance odInstanceID] in
                case get reg1 odInstanceID of
                  None \<Rightarrow> (tr1, reg1, Inl (TargetMissing odInstanceID))
                | Some odInstance0 \<Rightarrow>
                    (case shouldBeReplacedWithSpot svc tr1 odInstance0 of
                       (tr2, odInstance, res) \<Rightarrow>
                         (let reg2 = reg1\<lparr>catalog := (catalog reg1)(odInstanceID \<mapsto> odInstance)\<rparr>
                          in case res of
                            Inl e \<Rightarrow> (tr2, reg2, Inl e)
                          | Inr should \<Rightarrow>
                         if \<not> should then
                           (fst (terminate svc tr2 i), reg2,
                            Inl (TargetShouldNotBeReplaced odInstanceID))
                         else
                           (let tr3 = tr2 @ [SuspendProcesses (asg_name a)];
                                desiredCapacity = DesiredCapacity a;
                                maxSize = MaxSize a;
                                tr4 = (if desiredCapacity = maxSize
                                       then tr3 @ [SetAutoScalingMaxSize (asg_name a) (maxSize + 1)]
                                       else tr3);
                                err = attachSpotInstance svc tr4 (asg_name a) (InstanceId i) True;
                                tr5 = tr4 @ [AttachInstances (asg_name a) (InstanceId i) True]
                            in if err \<noteq> None then
                                 (fst (terminate svc tr5 i) @ deferredCalls a, reg2,
                                  Inl (AttachFailed (InstanceId i)))
                               else
                                 (let err2 = terminateInstanceInAutoScalingGroup svc tr5
                                               odInstanceID True True;
                                      tr6 = tr5 @ [TerminateInstanceInAutoScalingGroup
                                                     odInstanceID True True]
                                  in if err2 \<noteq> None then
                                       (tr6 @ deferredCalls a, reg2,
                                        Inl (TerminateFailed odInstanceID))
                                     else (tr6 @ deferredCalls a, reg2, Inr odInstance))))))))"

text \<open>
  Modelled from the spec: the effect on a group of the capability operations
  \<^verbatim>\<open>suspend_processes\<close>, \<^verbatim>\<open>resume_processes\<close> and \<^verbatim>\<open>set_auto_scaling_max_size\<close>, whose
  code (\<^verbatim>\<open>suspendProcesses\<close>, \<^verbatim>\<open>resumeProcesses\<close>, \<^verbatim>\<open>setAutoScalingMaxSize\<close>) is in
  another file.  Each is fallible and the swap does not look at its result: \<open>ok c\<close> says
  that the call \<open>c\<close> succeeds.  A call that succeeds suspends or resumes the group's
  processes or sets its max size; a call that fails changes nothing.
\<close>

record groupState =
  processesSuspended :: bool
  groupMaxSize :: "64 word"

fun applyCall :: "string \<Rightarrow> (call \<Rightarrow> bool) \<Rightarrow> groupState \<Rightarrow> call \<Rightarrow> groupState" where
  "applyCall g ok st (SuspendProcesses n) =
     (if n = g \<and> ok (SuspendProcesses n) then st\<lparr>processesSuspended := True\<rparr> else st)"
| "applyCall g ok st (ResumeProcesses n) =
     (if n = g \<and> ok (ResumeProcesses n) then st\<lparr>processesSuspended := False\<rparr> else st)"
| "applyCall g ok st (SetAutoScalingMaxSize n m) =
     (if n = g \<and> ok (SetAutoScalingMaxSize n m) then st\<lparr>groupMaxSize := m\<rparr> else st)"
| "applyCall g ok st _ = st"

definition applyCalls :: "string \<Rightarrow> (call \<Rightarrow> bool) \<Rightarrow> groupState \<Rightarrow> call list \<Rightarrow> groupState" where
  "applyCalls g ok st cs = foldl (applyCall g ok) st cs"

section \<open>Example values\<close>

definition exPrices :: "real \<Rightarrow> prices" where
  "exPrices p =
     \<lparr>onDemand = 1 / 10, spot = [''eu-west-1a'' \<mapsto> p], ebsSurcharge = 1 / 100, premium = 0\<rparr>"

definition exType :: "string \<Rightarrow> real \<Rightarrow> instanceTypeInformation" where
  "exType n p =
     \<lparr>instanceType = n, vCPU = 2, PhysicalProcessor = ''Intel Xeon Family'', GPU = 0,
      pricing = exPrices p, memory = 8, virtualizationTypes = [''HVM''],
      hasInstanceStore = False, instanceStoreDeviceSize = 0, instanceStoreDeviceCount = 0,
      instanceStoreIsSSD = False, hasEBSOptimization = True, EBSThroughput = 100\<rparr>"

definition exCatalog :: "(string \<times> instanceTypeInformation) list" where
  "exCatalog =
     [(''a'', exType ''a'' 2), (''b'', exType ''b'' 2), (''c'', exType ''c'' 2),
      (''d'', exType ''d'' 2), (''e'', exType ''e'' 2), (''f'', exType ''f'' 2),
      (''g'', exType ''g'' 1)]"

definition exGroup :: "64 word \<Rightarrow> 64 word \<Rightarrow> autoScalingGroup" where
  "exGroup desired mx =
     \<lparr>asg_name = ''web'', asg_region_name = ''eu-west-1'', DesiredCapacity = desired,
      MaxSize = mx, LaunchTemplate = None, LaunchConfigurationName = Some ''web-lc'',
      Instances = [], OnDemandPriceMultiplier = 1, GP2ConversionThreshold = 200,
      lcEphemeralVolumes = 0, ltEphemeralVolumes = 0\<rparr>"

definition exRegion :: "(string \<times> instanceTypeInformation) list \<Rightarrow> string \<Rightarrow> region" where
  "exRegion tbl policy =
     \<lparr>region_name = ''eu-west-1'', instanceTypeInformation = tbl,
      BiddingPolicy = policy, SpotPriceBufferPercentage = 10,
      enabledASGs = [exGroup 2 2], conf_OnDemandPriceMultiplier = 1,
      conf_AutoScalingConfig =
        \<lparr>cfg_OnDemandPriceMultiplier = 1, cfg_GP2ConversionThreshold = 200\<rparr>\<rparr>"

definition exInstance :: "string \<Rightarrow> string \<Rightarrow> tag list \<Rightarrow> real \<Rightarrow> region \<Rightarrow> instance_t" where
  "exInstance ident st tgs pr rg =
     \<lparr>InstanceId = ident, AvailabilityZone = ''eu-west-1a'', EbsOptimized = None,
      InstanceLifecycle = None, StateName = st, VirtualizationType = ''hvm'',
      Tags = tgs, typeInfo = exType ''m'' 3, price = pr, inst_region = rg,
      protected = False, asg = Some (exGroup 2 2)\<rparr>"

definition exServices :: "error option \<Rightarrow> error option \<Rightarrow> error option \<Rightarrow> services" where
  "exServices ec2Err attachErr terminateErr =
     \<lparr>ec2_TerminateInstances = (\<lambda>tr ids. ec2Err),
      ec2_DescribeInstanceAttribute = (\<lambda>tr ident. Inr (Some False)),
      scanInstance = (\<lambda>tr ident reg. if ident = ''i-gone'' then Inl (ApiError ''not found'') else Inr reg),
      asg_scanInstances =
        (\<lambda>tr g. g\<lparr>Instances := [\<lparr>member_InstanceId = ''i-od'',
                                      member_ProtectedFromScaleIn = False\<rparr>]\<rparr>),
      asg_loadDefaultConfig = (\<lambda>tr g. g),
      asg_loadConfigFromTags = (\<lambda>tr g. g),
      asg_loadLaunchConfiguration = (\<lambda>tr g. g),
      asg_loadLaunchTemplate = (\<lambda>tr g. g),
      needReplaceOnDemandInstances = (\<lambda>tr g. True),
      attachSpotInstance = (\<lambda>tr g ident incr. attachErr),
      terminateInstanceInAutoScalingGroup = (\<lambda>tr ident decr unhealthy. terminateErr)\<rparr>"

definition exSource :: instance_t where
  "exSource = exInstance ''i-od'' ''running'' [] 5 (exRegion exCatalog ''normal'')"

definition exEbs :: "string option \<Rightarrow> int option \<Rightarrow> ebsBlockDevice" where
  "exEbs vt sz =
     \<lparr>DeleteOnTermination = Some True, Encrypted = None, Iops = None, SnapshotId = None,
      VolumeSize = sz, VolumeType = vt\<rparr>"

definition exSpot :: "string \<Rightarrow> instance_t" where
  "exSpot target =
     exInstance ''i-spot'' ''running''
       [\<lparr>Key = ''Name'', Value = Some ''web-1''\<rparr>,
        \<lparr>Key = ''launched-for-replacing-instance'', Value = Some target\<rparr>]
       5 (exRegion exCatalog ''normal'')"

definition exRegistry :: instanceManager where
  "exRegistry = \<lparr>catalog = [''i-od'' \<mapsto> exSource]\<rparr>"

text \<open>An on-demand member of the enabled group \<open>web\<close>, as the registry holds it before
  the swap (\<open>exTarget 5 None\<close>) and as the swap leaves it.\<close>

definition exLoadedGroup :: autoScalingGroup where
  "exLoadedGroup =
     (exGroup 2 2)\<lparr>Instances := [\<lparr>member_InstanceId = ''i-od'',
                                    member_ProtectedFromScaleIn = False\<rparr>]\<rparr>"

definition exTarget :: "real \<Rightarrow> autoScalingGroup option \<Rightarrow> instance_t" where
  "exTarget pr g =
     (exInstance ''i-od'' ''running''
        [\<lparr>Key = ''Name'', Value = Some ''web-0''\<rparr>,
         \<lparr>Key = ''aws:autoscaling:groupName'', Value = Some ''web''\<rparr>]
        pr (exRegion exCatalog ''normal''))\<lparr>asg := g\<rparr>"

definition exGroupRegistry :: "instance_t \<Rightarrow> instanceManager" where
  "exGroupRegistry t = \<lparr>catalog = [''i-od'' \<mapsto> t]\<rparr>"

definition exGroupState :: groupState where
  "exGroupState = \<lparr>processesSuspended = False, groupMaxSize = 2\<rparr>"

section \<open>Notions used in the statements\<close>

text \<open>The number of ephemeral volumes that the ranking function compares candidates with.\<close>

definition attachedVolumesNumberOf :: "instance_t \<Rightarrow> autoScalingGroup \<Rightarrow> int" where
  "attachedVolumesNumberOf i a =
     min_int (max_int (lcEphemeralVolumes a) (ltEphemeralVolumes a))
       (instanceStoreDeviceCount (typeInfo i))"

text \<open>Candidates of equal effective price appear in ascending order of type name.\<close>

definition tiesInNameOrder :: "instance_t \<Rightarrow> instanceTypeInformation list \<Rightarrow> bool" where
  "tiesInNameOrder i res \<longleftrightarrow>
     sorted_wrt
       (\<lambda>s t. calculatePrice i s = calculatePrice i t \<longrightarrow> instanceType s \<le> instanceType t) res"

text \<open>The call that raises the max size, issued when desired capacity equals max size.\<close>

definition raiseCalls :: "autoScalingGroup \<Rightarrow> call list" where
  "raiseCalls a =
     (if DesiredCapacity a = MaxSize a
      then [SetAutoScalingMaxSize (asg_name a) (MaxSize a + 1)] else [])"

section \<open>Theorems\<close>

subsection \<open>Registry\<close>

text \<open>
  Claim C10.  For every registry state, \<open>add\<close> with a nil instance record leaves the
  registry unchanged: it is the same registry, so every \<open>get\<close> returns what it returned
  before and the count is unchanged.
\<close>

theorem add_nil_unchanged:
  "add im None = im \<and> get (add im None) ident = get im ident \<and> count_im (add im None) = count_im im"
  by (simp add: add_def)

subsection \<open>terminate\<close>

text \<open>
  Claim C9.  For an instance whose state is terminated or shutting-down, \<open>terminate\<close>
  returns an error and issues no call; in any other state it issues exactly one
  TerminateInstances call, for that instance id alone, and returns the error value of
  that call.
\<close>

theorem terminate_calls:
  "(StateName i = ''terminated'' \<or> StateName i = ''shutting-down'' \<longrightarrow>
      terminate svc tr i = (tr, Some (CantTerminate (InstanceId i)))) \<and>
   (StateName i \<noteq> ''terminated'' \<and> StateName i \<noteq> ''shutting-down'' \<longrightarrow>
      terminate svc tr i =
        (tr @ [TerminateInstances [InstanceId i]],
         ec2_TerminateInstances svc tr [InstanceId i]))"
  by (auto simp: terminate_def canTerminate_def Let_def
      InstanceStateNameTerminated_def InstanceStateNameShuttingDown_def)

theorem terminate_calls_witness:
  "terminate (exServices None None None) []
       (exInstance ''i-1'' ''terminated'' [] 5 (exRegion [] ''normal'')) =
     ([], Some (CantTerminate ''i-1'')) \<and>
   terminate (exServices None None None) []
       (exInstance ''i-1'' ''shutting-down'' [] 5 (exRegion [] ''normal'')) =
     ([], Some (CantTerminate ''i-1'')) \<and>
   terminate (exServices (Some (ApiError ''throttled'')) None None) []
       (exInstance ''i-2'' ''running'' [] 5 (exRegion [] ''normal'')) =
     ([TerminateInstances [''i-2'']], Some (ApiError ''throttled''))"
  using
    terminate_calls [of "exInstance ''i-1'' ''terminated'' [] 5 (exRegion [] ''normal'')"
      "exServices None None None" "[]"]
    terminate_calls [of "exInstance ''i-1'' ''shutting-down'' [] 5 (exRegion [] ''normal'')"
      "exServices None None None" "[]"]
    terminate_calls [of "exInstance ''i-2'' ''running'' [] 5 (exRegion [] ''normal'')"
      "exServices (Some (ApiError ''throttled'')) None None" "[]"]
  by (simp add: exInstance_def exServices_def)

subsection \<open>Facts about the example values\<close>

lemma ex_price: "calculatePrice exSource (exType n p) = p"
  by (simp add: exSource_def exInstance_def exType_def exPrices_def calculatePrice_def
      spotPriceIn_def)

lemma ex_name: "instanceType (exType n p) = n"
  by (simp add: exType_def)

lemma ex_accepted_any:
  "p \<noteq> 0 \<Longrightarrow> p \<le> 5 \<Longrightarrow> accepted (\<lambda>pat n. False) exSource [] [] 0 (exType n p)"
  by (simp add: accepted_def exSource_def exInstance_def exType_def exPrices_def isAllowed_def
      isPriceCompatible_def calculatePrice_def spotPriceIn_def isEBSCompatible_def
      isClassCompatible_def isSameArch_def isIntelCompatible_def isIntel_def isAMD_def isARM_def
      strings_HasPrefix_def isStorageCompatible_def isVirtualizationCompatible_def Let_def)

lemma ex_accepted: "accepted (\<lambda>pat n. False) exSource [] [] 0 (exType ''a'' 2)"
  by (rule ex_accepted_any) simp_all

subsection \<open>Price check of the compatibility filter\<close>

text \<open>
  Claim C1, as amended.  For every source instance and every candidate type accepted by
  the compatibility filter, the effective price \<open>p\<close> (the spot price of the candidate in
  the instance's availability zone, plus the candidate's EBS surcharge when the
  instance is EBS-optimized) satisfies \<open>p \<noteq> 0\<close> and \<open>p \<le> price\<close>; it satisfies
  \<open>p > 0\<close> when the spot price and the surcharge are not negative.  The price check
  rejects the price 0 only, so a negative effective price is accepted.
\<close>

theorem accepted_price_bounds:
  assumes "accepted fmatch i al dl vols T"
  shows "calculatePrice i T =
           spotPriceIn (pricing T) (AvailabilityZone i) +
           (if EbsOptimized i = Some True then ebsSurcharge (pricing T) else 0) \<and>
         calculatePrice i T \<noteq> 0 \<and>
         calculatePrice i T \<le> price i \<and>
         (0 \<le> spotPriceIn (pricing T) (AvailabilityZone i) \<and> 0 \<le> ebsSurcharge (pricing T)
            \<longrightarrow> 0 < calculatePrice i T)"
proof -
  have pc: "isPriceCompatible i (calculatePrice i T)"
    using assms by (simp add: accepted_def)
  have nz: "calculatePrice i T \<noteq> 0" and le: "calculatePrice i T \<le> price i"
    using pc by (auto simp: isPriceCompatible_def split: if_splits)
  have eq: "calculatePrice i T =
           spotPriceIn (pricing T) (AvailabilityZone i) +
           (if EbsOptimized i = Some True then ebsSurcharge (pricing T) else 0)"
    by (simp add: calculatePrice_def Let_def)
  have pos: "0 \<le> spotPriceIn (pricing T) (AvailabilityZone i) \<and> 0 \<le> ebsSurcharge (pricing T)
            \<longrightarrow> 0 < calculatePrice i T"
    using nz eq by (auto split: if_splits)
  show ?thesis using nz le eq pos by blast
qed

theorem accepted_price_bounds_witness:
  "accepted (\<lambda>pat n. False) exSource [] [] 0 (exType ''a'' 2) \<and>
   calculatePrice exSource (exType ''a'' 2) = 2 \<and>
   0 < calculatePrice exSource (exType ''a'' 2) \<and>
   calculatePrice exSource (exType ''a'' 2) \<le> price exSource"
  using accepted_price_bounds [OF ex_accepted] ex_accepted by (simp add: ex_price)

text \<open>
  The claim as stated fails: a candidate whose spot price in the zone is \<open>-1\<close> passes
  all six checks, and its effective price is not positive.
\<close>

theorem negative_price_counterexample:
  "accepted (\<lambda>pat n. False) exSource [] [] 0 (exType ''n'' (- 1)) \<and>
   \<not> (0 < calculatePrice exSource (exType ''n'' (- 1)) \<and>
      calculatePrice exSource (exType ''n'' (- 1)) \<le> price exSource)"
  using ex_accepted_any [of "- 1" "''n''"] by (simp add: ex_price)

subsection \<open>Ranking\<close>

lemma findAcceptable_filter:
  "findAcceptable fm i al dl v cs acc =
     acc @ map (\<lambda>c. \<lparr>instanceTI = c, ai_price = calculatePrice i c\<rparr>)
             (filter (accepted fm i al dl v) cs)"
  by (induction cs arbitrary: acc) (simp_all add: Let_def)

lemma acceptableInstanceTypesOf_filter:
  "acceptableInstanceTypesOf fm i a al dl =
     map (\<lambda>c. \<lparr>instanceTI = c, ai_price = calculatePrice i c\<rparr>)
       (filter (accepted fm i al dl (attachedVolumesNumberOf i a))
          (candidatesInKeyOrder (instanceTypeInformation (inst_region i))))"
  by (simp add: acceptableInstanceTypesOf_def attachedVolumesNumberOf_def Let_def
      findAcceptable_filter)

lemma sort_Slice_prices:
  assumes "sort_Slice (\<lambda>x y. ai_price x < ai_price y)
             (map (\<lambda>c. \<lparr>instanceTI = c, ai_price = f c\<rparr>) cs) ys"
  shows "sorted_wrt (\<lambda>s t. f s \<le> f t) (map instanceTI ys) \<and>
         mset (map instanceTI ys) = mset cs"
proof -
  let ?mk = "\<lambda>c. \<lparr>instanceTI = c, ai_price = f c\<rparr>"
  from assms have ms: "mset ys = mset (map ?mk cs)"
    and so: "sorted_wrt (\<lambda>a b. \<not> ai_price b < ai_price a) ys"
    by (simp_all add: sort_Slice_def)
  from ms have "set ys = set (map ?mk cs)" by (rule mset_eq_setD)
  then have pr: "\<And>y. y \<in> set ys \<Longrightarrow> ai_price y = f (instanceTI y)" by auto
  have "sorted_wrt (\<lambda>a b. f (instanceTI a) \<le> f (instanceTI b)) ys"
    using so by (rule sorted_wrt_mono_rel [rotated]) (simp add: pr)
  then have s: "sorted_wrt (\<lambda>s t. f s \<le> f t) (map instanceTI ys)"
    by (simp add: sorted_wrt_map)
  have "mset (map instanceTI ys) = image_mset instanceTI (mset (map ?mk cs))"
    using ms by simp
  also have "\<dots> = mset cs" by (simp add: image_mset.compositionality comp_def)
  finally show ?thesis using s by simp
qed

lemma ex_candidates:
  "candidatesInKeyOrder exCatalog =
     [exType ''a'' 2, exType ''b'' 2, exType ''c'' 2, exType ''d'' 2, exType ''e'' 2,
      exType ''f'' 2, exType ''g'' 1]"
  by (simp add: candidatesInKeyOrder_def sortedKeys_def exCatalog_def List.map_filter_simps)

lemma ex_acceptable:
  "acceptableInstanceTypesOf (\<lambda>pat n. False) exSource (exGroup 2 2) [] [] =
     map (\<lambda>c. \<lparr>instanceTI = c, ai_price = calculatePrice exSource c\<rparr>)
       [exType ''a'' 2, exType ''b'' 2, exType ''c'' 2, exType ''d'' 2, exType ''e'' 2,
        exType ''f'' 2, exType ''g'' 1]"
proof -
  have v: "attachedVolumesNumberOf exSource (exGroup 2 2) = 0"
    by (simp add: attachedVolumesNumberOf_def exSource_def exInstance_def exGroup_def exType_def
        min_int_def max_int_def)
  have r: "instanceTypeInformation (inst_region exSource) = exCatalog"
    by (simp add: exSource_def exInstance_def exRegion_def)
  show ?thesis
    by (simp add: acceptableInstanceTypesOf_filter v r ex_candidates ex_accepted_any)
qed

text \<open>
  A possible result on the seven candidates \<open>a\<close> to \<open>g\<close>, where \<open>g\<close> is the cheapest
  and the other six cost the same: \<open>g\<close> first and \<open>a\<close> last.  It is the order that one
  exchange of the first and the last element leaves; the \<^verbatim>\<open>sort.Slice\<close> of the Go
  releases before 1.19 makes that exchange on a slice of seven (a pass with gap 6) before
  its insertion sort.
\<close>

lemma ex_ranking:
  "getCompatibleSpotInstanceTypesListSortedAscendingByPrice (\<lambda>pat n. False) exSource [] []
     (Inr [exType ''g'' 1, exType ''b'' 2, exType ''c'' 2, exType ''d'' 2, exType ''e'' 2,
           exType ''f'' 2, exType ''a'' 2])"
proof -
  let ?mk = "\<lambda>c. \<lparr>instanceTI = c, ai_price = calculatePrice exSource c\<rparr>"
  let ?ys = "map ?mk [exType ''g'' 1, exType ''b'' 2, exType ''c'' 2, exType ''d'' 2,
                      exType ''e'' 2, exType ''f'' 2, exType ''a'' 2]"
  have a: "asg exSource = Some (exGroup 2 2)"
    by (simp add: exSource_def exInstance_def)
  have s: "sort_Slice (\<lambda>x y. ai_price x < ai_price y)
             (acceptableInstanceTypesOf (\<lambda>pat n. False) exSource (exGroup 2 2) [] []) ?ys"
    by (simp add: sort_Slice_def ex_acceptable ex_price)
  have m: "map instanceTI ?ys =
             [exType ''g'' 1, exType ''b'' 2, exType ''c'' 2, exType ''d'' 2, exType ''e'' 2,
              exType ''f'' 2, exType ''a'' 2]"
    by simp
  have ne: "acceptableInstanceTypesOf (\<lambda>pat n. False) exSource (exGroup 2 2) [] [] \<noteq> []"
    by (simp add: ex_acceptable)
  show ?thesis
    unfolding getCompatibleSpotInstanceTypesListSortedAscendingByPrice_def a
    using s m ne by (auto simp: Let_def intro!: exI [of _ ?ys])
qed

text \<open>
  Claim C2, as amended.  Every list that
  \<open>getCompatibleSpotInstanceTypesListSortedAscendingByPrice\<close> can return is sorted
  ascending by effective price and holds exactly the accepted candidates, each as often
  as the enumeration by sorted key yields it.  The order of two candidates of equal
  price is left to \<^verbatim>\<open>sort.Slice\<close>, which is not stable, so nothing is stated about it.
\<close>

theorem ranking_sorted_by_price:
  assumes "getCompatibleSpotInstanceTypesListSortedAscendingByPrice fmatch i al dl (Inr res)"
  shows "sorted_wrt (\<lambda>s t. calculatePrice i s \<le> calculatePrice i t) res \<and>
         (\<exists>a. asg i = Some a \<and>
            mset res =
              mset (filter (accepted fmatch i al dl (attachedVolumesNumberOf i a))
                     (candidatesInKeyOrder (instanceTypeInformation (inst_region i)))))"
proof (cases "asg i")
  case None
  with assms show ?thesis
    by (simp add: getCompatibleSpotInstanceTypesListSortedAscendingByPrice_def)
next
  case (Some a)
  with assms obtain ys where
    ys: "sort_Slice (\<lambda>x y. ai_price x < ai_price y)
           (acceptableInstanceTypesOf fmatch i a al dl) ys"
    and res: "res = map instanceTI ys"
    by (auto simp: getCompatibleSpotInstanceTypesListSortedAscendingByPrice_def Let_def
        split: if_splits)
  from sort_Slice_prices [OF ys [unfolded acceptableInstanceTypesOf_filter]] res Some
  show ?thesis by simp
qed

theorem ranking_sorted_by_price_witness:
  "getCompatibleSpotInstanceTypesListSortedAscendingByPrice (\<lambda>pat n. False) exSource [] []
     (Inr [exType ''g'' 1, exType ''b'' 2, exType ''c'' 2, exType ''d'' 2, exType ''e'' 2,
           exType ''f'' 2, exType ''a'' 2]) \<and>
   sorted_wrt (\<lambda>s t. calculatePrice exSource s \<le> calculatePrice exSource t)
     [exType ''g'' 1, exType ''b'' 2, exType ''c'' 2, exType ''d'' 2, exType ''e'' 2,
      exType ''f'' 2, exType ''a'' 2]"
  using ranking_sorted_by_price [OF ex_ranking] ex_ranking by blast

text \<open>
  The claim as stated fails: the result above is sorted by price, and \<open>b\<close> stands
  before \<open>a\<close> at equal price.
\<close>

theorem tie_order_counterexample:
  "getCompatibleSpotInstanceTypesListSortedAscendingByPrice (\<lambda>pat n. False) exSource [] []
     (Inr [exType ''g'' 1, exType ''b'' 2, exType ''c'' 2, exType ''d'' 2, exType ''e'' 2,
           exType ''f'' 2, exType ''a'' 2]) \<and>
   \<not> tiesInNameOrder exSource
       [exType ''g'' 1, exType ''b'' 2, exType ''c'' 2, exType ''d'' 2, exType ''e'' 2,
        exType ''f'' 2, exType ''a'' 2]"
  using ex_ranking by (simp add: tiesInNameOrder_def ex_price ex_name)

subsection \<open>Bid pricer\<close>

text \<open>
  Claim C7.  For every base on-demand price, current spot price, spot premium and
  buffer percentage \<open>B\<close>, \<open>getPriceToBid\<close> returns the base on-demand price under the
  normal policy, and under any other policy (the aggressive one)
  \<open>min base ((spot - premium) * (1 + B / 100) + premium)\<close>, which is at most the base
  on-demand price.
\<close>

theorem getPriceToBid_policies:
  "(BiddingPolicy (inst_region i) = ''normal'' \<longrightarrow>
      getPriceToBid i baseOnDemandPrice currentSpotPrice spotPremium = baseOnDemandPrice) \<and>
   (BiddingPolicy (inst_region i) \<noteq> ''normal'' \<longrightarrow>
      getPriceToBid i baseOnDemandPrice currentSpotPrice spotPremium =
        min baseOnDemandPrice
          ((currentSpotPrice - spotPremium) *
             (1 + SpotPriceBufferPercentage (inst_region i) / 100) + spotPremium) \<and>
      getPriceToBid i baseOnDemandPrice currentSpotPrice spotPremium \<le> baseOnDemandPrice)"
  by (simp add: getPriceToBid_def DefaultBiddingPolicy_def Let_def)

theorem getPriceToBid_policies_witness:
  "getPriceToBid (exInstance ''i-od'' ''running'' [] 5 (exRegion exCatalog ''normal''))
     (1 / 10) (4 / 100) 0 = 1 / 10 \<and>
   getPriceToBid (exInstance ''i-od'' ''running'' [] 5 (exRegion exCatalog ''aggressive''))
     (1 / 10) (4 / 100) 0 = 44 / 1000 \<and>
   getPriceToBid (exInstance ''i-od'' ''running'' [] 5 (exRegion exCatalog ''aggressive''))
     (1 / 10) 1 0 = 1 / 10"
  using
    getPriceToBid_policies
      [of "exInstance ''i-od'' ''running'' [] 5 (exRegion exCatalog ''normal'')"
        "1 / 10" "4 / 100" 0]
    getPriceToBid_policies
      [of "exInstance ''i-od'' ''running'' [] 5 (exRegion exCatalog ''aggressive'')"
        "1 / 10" "4 / 100" 0]
    getPriceToBid_policies
      [of "exInstance ''i-od'' ''running'' [] 5 (exRegion exCatalog ''aggressive'')"
        "1 / 10" 1 0]
  by (simp add: exInstance_def exRegion_def)

subsection \<open>Volume-type rewrite\<close>

lemma supported_eu_west_1: "supportedIO2region ''eu-west-1''"
  by (simp add: supportedIO2region_def unsupportedIO2Regions_def)

text \<open>
  Claim C8.  The volume-type rewrite is idempotent: for every volume type, volume size,
  region and threshold, when the rewrite returns a type, the rewrite of that type (same
  size, region and threshold) returns it again.  This holds for each of the three
  rewrites; io2 and gp3 are fixed points.
\<close>

theorem volume_type_rewrite_idempotent:
  "(convertLaunchConfigurationEBSVolumeType ebs a = Inr vt \<longrightarrow>
      convertLaunchConfigurationEBSVolumeType (ebs\<lparr>VolumeType := vt\<rparr>) a = Inr vt) \<and>
   (convertLaunchTemplateEBSVolumeType ebs a = Inr vt \<longrightarrow>
      convertLaunchTemplateEBSVolumeType (ebs\<lparr>VolumeType := vt\<rparr>) a = Inr vt) \<and>
   (convertImageEBSVolumeType ebs a = Inr vt \<longrightarrow>
      convertImageEBSVolumeType (ebs\<lparr>VolumeType := vt\<rparr>) a = Inr vt)"
  by (auto simp: convertLaunchConfigurationEBSVolumeType_def
      convertLaunchTemplateEBSVolumeType_def convertImageEBSVolumeType_def Let_def
      split: option.splits if_splits)

theorem volume_type_rewrite_idempotent_witness:
  "convertLaunchConfigurationEBSVolumeType (exEbs (Some ''io1'') (Some 100))
     (Some (exGroup 2 2)) = Inr (Some ''io2'') \<and>
   convertLaunchConfigurationEBSVolumeType (exEbs (Some ''io2'') (Some 100))
     (Some (exGroup 2 2)) = Inr (Some ''io2'') \<and>
   convertLaunchTemplateEBSVolumeType (exEbs (Some ''gp2'') (Some 150))
     (Some (exGroup 2 2)) = Inr (Some ''gp3'') \<and>
   convertLaunchTemplateEBSVolumeType (exEbs (Some ''gp3'') (Some 150))
     (Some (exGroup 2 2)) = Inr (Some ''gp3'') \<and>
   convertImageEBSVolumeType (exEbs (Some ''gp2'') (Some 400))
     (Some (exGroup 2 2)) = Inr (Some ''gp2'')"
  using
    volume_type_rewrite_idempotent
      [of "exEbs (Some ''io1'') (Some 100)" "Some (exGroup 2 2)" "Some ''io2''"]
    volume_type_rewrite_idempotent
      [of "exEbs (Some ''gp2'') (Some 150)" "Some (exGroup 2 2)" "Some ''gp3''"]
    volume_type_rewrite_idempotent
      [of "exEbs (Some ''gp2'') (Some 400)" "Some (exGroup 2 2)" "Some ''gp2''"]
  by (simp add: convertLaunchConfigurationEBSVolumeType_def
      convertLaunchTemplateEBSVolumeType_def convertImageEBSVolumeType_def exEbs_def
      exGroup_def supported_eu_west_1)

text \<open>
  Claim C4.  The claim says that a mapping with a missing volume type keeps it, from
  each of the three sources, without a failure.  The launch-configuration rewrite does
  so.  The launch-template and image rewrites dereference the missing type: on the
  same EBS block they fail, and so does the conversion of a list holding it.
\<close>

theorem nil_volume_type_by_source:
  "convertLaunchConfigurationEBSVolumeType (exEbs None (Some 100)) (Some (exGroup 2 2)) =
     Inr None \<and>
   convertLaunchTemplateEBSVolumeType (exEbs None (Some 100)) (Some (exGroup 2 2)) =
     Inl NilPointerDereference \<and>
   convertImageEBSVolumeType (exEbs None (Some 100)) (Some (exGroup 2 2)) =
     Inl NilPointerDereference \<and>
   convertLaunchTemplateBlockDeviceMappings exSource
     [\<lparr>DeviceName = Some ''/dev/xvda'', VirtualName = None,
       Ebs = Some (exEbs None (Some 100)), NoDevice = None\<rparr>] = Inl NilPointerDereference \<and>
   convertImageBlockDeviceMappings exSource
     [\<lparr>DeviceName = Some ''/dev/xvda'', VirtualName = None,
       Ebs = Some (exEbs None (Some 100)), NoDevice = None\<rparr>] = Inl NilPointerDereference \<and>
   convertLaunchConfigurationBlockDeviceMappings exSource
     [\<lparr>DeviceName = Some ''/dev/xvda'', VirtualName = None,
       Ebs = Some (exEbs None (Some 100)), NoDevice = None\<rparr>] =
     Inr [\<lparr>DeviceName = Some ''/dev/xvda'', VirtualName = None,
           Ebs = Some (exEbs None (Some 100)), NoDevice = None\<rparr>]"
  by (simp add: convertLaunchConfigurationEBSVolumeType_def
      convertLaunchTemplateEBSVolumeType_def convertImageEBSVolumeType_def
      convertLaunchTemplateBlockDeviceMappings_def convertImageBlockDeviceMappings_def
      convertLaunchConfigurationBlockDeviceMappings_def exEbs_def exSource_def exInstance_def)

subsection \<open>Tags\<close>

lemma copyTagsLoop_filter:
  "copyTagsLoop ts acc =
     acc @ filter (\<lambda>t. \<not> strings_HasPrefix (Key t) ''aws:'' \<and>
                       Key t \<notin> {''launched-by-autospotting'', ''launched-for-asg'',
                                 ''launched-for-replacing-instance'', ''LaunchTemplateID'',
                                 ''LaunchTemplateVersion'', ''LaunchConfiguationName''}) ts"
  by (induction ts arbitrary: acc) simp_all

text \<open>
  Claim C6.  The claim says that a source tag is copied exactly when its key neither
  starts with \<open>aws:\<close> nor is reserved.  The loop compares with
  \<open>LaunchConfiguationName\<close>, a misspelling of the key that the function itself writes
  a few lines above: a source tag with the reserved key \<open>LaunchConfigurationName\<close> is
  copied (the result then holds the key twice), and a source tag with the misspelt key,
  which is not reserved, is dropped.
\<close>

theorem reserved_key_copied:
  "generateTagsList
     (exInstance ''i-od'' ''running''
        [\<lparr>Key = ''Name'', Value = Some ''web-1''\<rparr>,
         \<lparr>Key = ''aws:autoscaling:groupName'', Value = Some ''web''\<rparr>,
         \<lparr>Key = ''LaunchConfigurationName'', Value = Some ''old-lc''\<rparr>,
         \<lparr>Key = ''LaunchConfiguationName'', Value = Some ''x''\<rparr>]
        5 (exRegion exCatalog ''normal'')) =
   Inr [\<lparr>ResourceType = ''instance'',
         spec_Tags =
           [\<lparr>Key = ''launched-by-autospotting'', Value = Some ''true''\<rparr>,
            \<lparr>Key = ''launched-for-asg'', Value = Some ''web''\<rparr>,
            \<lparr>Key = ''launched-for-replacing-instance'', Value = Some ''i-od''\<rparr>,
            \<lparr>Key = ''LaunchConfigurationName'', Value = Some ''web-lc''\<rparr>,
            \<lparr>Key = ''Name'', Value = Some ''web-1''\<rparr>,
            \<lparr>Key = ''LaunchConfigurationName'', Value = Some ''old-lc''\<rparr>]\<rparr>] \<and>
   ''LaunchConfigurationName'' \<in> set reservedKeys \<and>
   ''LaunchConfiguationName'' \<notin> set reservedKeys \<and>
   \<not> strings_HasPrefix ''LaunchConfiguationName'' ''aws:''"
  by (simp add: generateTagsList_def exInstance_def exGroup_def strings_HasPrefix_def
      reservedKeys_def)

subsection \<open>Swap\<close>

lemma fst_terminate:
  "fst (terminate svc tr i) =
     tr @ (if canTerminate i then [TerminateInstances [InstanceId i]] else [])"
  by (simp add: terminate_def Let_def)

lemma shouldBeReplacedWithSpot_trace:
  "fst (shouldBeReplacedWithSpot svc tr i) =
     tr @ [DescribeInstanceAttribute ''disableApiTermination'' (InstanceId i)]"
  by (simp add: shouldBeReplacedWithSpot_def isProtectedFromTermination_def Let_def
      split: sum.splits prod.splits)

lemma swap_no_target:
  "getReplacementTargetInstanceID i = None \<Longrightarrow>
     swapWithGroupMember svc tr reg i a = (tr, reg, Inl (NoTargetInstance (InstanceId i)))"
  by (simp add: swapWithGroupMember_def)

lemma swap_not_described:
  "getReplacementTargetInstanceID i = Some od \<Longrightarrow> scanInstance svc tr od reg = Inl e \<Longrightarrow>
     swapWithGroupMember svc tr reg i a =
       (tr @ [ScanInstance od], reg, Inl (TargetNotDescribed od))"
  by (simp add: swapWithGroupMember_def)

lemma swap_missing:
  "getReplacementTargetInstanceID i = Some od \<Longrightarrow> scanInstance svc tr od reg = Inr reg1 \<Longrightarrow>
     get reg1 od = None \<Longrightarrow>
     swapWithGroupMember svc tr reg i a = (tr @ [ScanInstance od], reg1, Inl (TargetMissing od))"
  by (simp add: swapWithGroupMember_def)

lemma swap_check_panics:
  assumes "getReplacementTargetInstanceID i = Some od" "scanInstance svc tr od reg = Inr reg1"
    "get reg1 od = Some odi"
    "shouldBeReplacedWithSpot svc (tr @ [ScanInstance od]) odi = (tr2, odi', Inl e)"
  shows "swapWithGroupMember svc tr reg i a =
     (tr2, reg1\<lparr>catalog := (catalog reg1)(od \<mapsto> odi')\<rparr>, Inl e)"
  using assms by (simp add: swapWithGroupMember_def)

lemma swap_not_replaced:
  assumes "getReplacementTargetInstanceID i = Some od" "scanInstance svc tr od reg = Inr reg1"
    "get reg1 od = Some odi"
    "shouldBeReplacedWithSpot svc (tr @ [ScanInstance od]) odi = (tr2, odi', Inr False)"
  shows "swapWithGroupMember svc tr reg i a =
     (tr2 @ (if canTerminate i then [TerminateInstances [InstanceId i]] else []),
      reg1\<lparr>catalog := (catalog reg1)(od \<mapsto> odi')\<rparr>, Inl (TargetShouldNotBeReplaced od))"
  using assms by (simp add: swapWithGroupMember_def fst_terminate)

lemma swap_protocol:
  assumes "getReplacementTargetInstanceID i = Some od" "scanInstance svc tr od reg = Inr reg1"
    "get reg1 od = Some odi"
    "shouldBeReplacedWithSpot svc (tr @ [ScanInstance od]) odi = (tr2, odi', Inr True)"
    and tr5: "tr5 = tr2 @ [SuspendProcesses (asg_name a)] @ raiseCalls a"
  shows "swapWithGroupMember svc tr reg i a =
     (if attachSpotInstance svc tr5 (asg_name a) (InstanceId i) True \<noteq> None
      then (tr5 @ [AttachInstances (asg_name a) (InstanceId i) True] @
              (if canTerminate i then [TerminateInstances [InstanceId i]] else []) @
              deferredCalls a,
            reg1\<lparr>catalog := (catalog reg1)(od \<mapsto> odi')\<rparr>, Inl (AttachFailed (InstanceId i)))
      else (tr5 @ [AttachInstances (asg_name a) (InstanceId i) True] @
              [TerminateInstanceInAutoScalingGroup od True True] @ deferredCalls a,
            reg1\<lparr>catalog := (catalog reg1)(od \<mapsto> odi')\<rparr>,
            if terminateInstanceInAutoScalingGroup svc
                 (tr5 @ [AttachInstances (asg_name a) (InstanceId i) True]) od True True \<noteq> None
            then Inl (TerminateFailed od) else Inr odi'))"
  using assms(1-4)
  by (simp add: swapWithGroupMember_def fst_terminate tr5 raiseCalls_def Let_def)

lemma release_effect:
  assumes "groupMaxSize st = MaxSize a" "ok (ResumeProcesses (asg_name a))"
    "DesiredCapacity a = MaxSize a \<longrightarrow> ok (SetAutoScalingMaxSize (asg_name a) (MaxSize a))"
    and mid: "mid = [TerminateInstances x] \<or> mid = [] \<or>
              mid = [TerminateInstanceInAutoScalingGroup y d u]"
  shows "\<not> processesSuspended
            (applyCalls (asg_name a) ok st
               ([ScanInstance od, DescribeInstanceAttribute attr z,
                 SuspendProcesses (asg_name a)] @ raiseCalls a @
                [AttachInstances (asg_name a) s True] @ mid @ deferredCalls a)) \<and>
         groupMaxSize
            (applyCalls (asg_name a) ok st
               ([ScanInstance od, DescribeInstanceAttribute attr z,
                 SuspendProcesses (asg_name a)] @ raiseCalls a @
                [AttachInstances (asg_name a) s True] @ mid @ deferredCalls a)) = MaxSize a"
  using assms by (auto simp: applyCalls_def deferredCalls_def raiseCalls_def)

text \<open>
  Claim C3.  For every execution of the swap that reaches the suspension of the group's
  processes, whatever the services answer afterwards (success, attach failure, terminate
  failure): the calls of the swap end with the restoration of the original max size,
  when desired capacity equalled max size, followed by the resumption of the processes;
  provided these release calls succeed, on a group whose max size is the one in the
  group handle the calls of the swap leave the processes resumed and the max size as
  it was; and the swap returns the replaced instance, the attach-failed error or the
  terminate-failed error.
\<close>

theorem swap_releases_group:
  assumes run: "swapWithGroupMember svc tr reg i a = (tr', reg', r)"
    and susp: "SuspendProcesses (asg_name a) \<in> set (drop (length tr) tr')"
  shows "(\<exists>work. tr' = tr @ work @
             (if DesiredCapacity a = MaxSize a
              then [SetAutoScalingMaxSize (asg_name a) (MaxSize a)] else []) @
             [ResumeProcesses (asg_name a)]) \<and>
         (\<forall>st ok.
            groupMaxSize st = MaxSize a \<and> ok (ResumeProcesses (asg_name a)) \<and>
            (DesiredCapacity a = MaxSize a \<longrightarrow>
               ok (SetAutoScalingMaxSize (asg_name a) (MaxSize a))) \<longrightarrow>
            \<not> processesSuspended (applyCalls (asg_name a) ok st (drop (length tr) tr')) \<and>
            groupMaxSize (applyCalls (asg_name a) ok st (drop (length tr) tr')) = MaxSize a) \<and>
         ((\<exists>od. r = Inr od) \<or> r = Inl (AttachFailed (InstanceId i)) \<or>
          (\<exists>od. r = Inl (TerminateFailed od)))"
proof (cases "getReplacementTargetInstanceID i")
  case None
  from swap_no_target [OF None, of svc tr reg a] run susp show ?thesis by simp
next
  case (Some od)
  note target = Some
  show ?thesis
  proof (cases "scanInstance svc tr od reg")
    case (Inl e)
    from swap_not_described [OF target Inl, of a] run susp show ?thesis by auto
  next
    case (Inr reg1)
    note scan = Inr
    show ?thesis
    proof (cases "get reg1 od")
      case None
      from swap_missing [OF target scan None, of a] run susp show ?thesis by auto
    next
      case (Some odi)
      note found = Some
      obtain tr2 odi' res
        where s: "shouldBeReplacedWithSpot svc (tr @ [ScanInstance od]) odi = (tr2, odi', res)"
        by (cases "shouldBeReplacedWithSpot svc (tr @ [ScanInstance od]) odi")
      from shouldBeReplacedWithSpot_trace [of svc "tr @ [ScanInstance od]" odi] s
      have tr2: "tr2 = tr @ [ScanInstance od,
          DescribeInstanceAttribute ''disableApiTermination'' (InstanceId odi)]"
        by simp
      show ?thesis
      proof (cases res)
        case (Inl e)
        with s have s': "shouldBeReplacedWithSpot svc (tr @ [ScanInstance od]) odi =
            (tr2, odi', Inl e)"
          by simp
        from swap_check_panics [OF target scan found s', of a] run susp tr2
        show ?thesis by auto
      next
        case (Inr should)
        show ?thesis
        proof (cases should)
          case False
          with s Inr have s': "shouldBeReplacedWithSpot svc (tr @ [ScanInstance od]) odi =
              (tr2, odi', Inr False)"
            by simp
          from swap_not_replaced [OF target scan found s', of a] run susp tr2
          show ?thesis by (auto split: if_splits)
        next
          case True
          with s Inr have s': "shouldBeReplacedWithSpot svc (tr @ [ScanInstance od]) odi =
              (tr2, odi', Inr True)"
            by simp
          define tr5 where "tr5 = tr2 @ [SuspendProcesses (asg_name a)] @ raiseCalls a"
          note p = swap_protocol [OF target scan found s' tr5_def]
          have "\<exists>mid x y d u.
              tr' = tr5 @ [AttachInstances (asg_name a) (InstanceId i) True] @ mid @
                      deferredCalls a \<and>
              (mid = [TerminateInstances x] \<or> mid = [] \<or>
               mid = [TerminateInstanceInAutoScalingGroup y d u]) \<and>
              (r = Inr odi' \<or> r = Inl (AttachFailed (InstanceId i)) \<or>
               r = Inl (TerminateFailed od))"
            using p run by (auto split: if_splits)
          then obtain mid x y d u where
            tr': "tr' = tr5 @ [AttachInstances (asg_name a) (InstanceId i) True] @ mid @
                      deferredCalls a"
            and mid: "mid = [TerminateInstances x] \<or> mid = [] \<or>
               mid = [TerminateInstanceInAutoScalingGroup y d u]"
            and r: "r = Inr odi' \<or> r = Inl (AttachFailed (InstanceId i)) \<or>
               r = Inl (TerminateFailed od)"
            by blast
          have new: "drop (length tr) tr' =
              [ScanInstance od,
               DescribeInstanceAttribute ''disableApiTermination'' (InstanceId odi),
               SuspendProcesses (asg_name a)] @ raiseCalls a @
              [AttachInstances (asg_name a) (InstanceId i) True] @ mid @ deferredCalls a"
            unfolding tr' tr5_def tr2 by simp
          have 1: "\<exists>work. tr' = tr @ work @
             (if DesiredCapacity a = MaxSize a
              then [SetAutoScalingMaxSize (asg_name a) (MaxSize a)] else []) @
             [ResumeProcesses (asg_name a)]"
            unfolding tr' tr5_def tr2 deferredCalls_def by simp
          have 2: "\<forall>st ok.
            groupMaxSize st = MaxSize a \<and> ok (ResumeProcesses (asg_name a)) \<and>
            (DesiredCapacity a = MaxSize a \<longrightarrow>
               ok (SetAutoScalingMaxSize (asg_name a) (MaxSize a))) \<longrightarrow>
            \<not> processesSuspended (applyCalls (asg_name a) ok st (drop (length tr) tr')) \<and>
            groupMaxSize (applyCalls (asg_name a) ok st (drop (length tr) tr')) = MaxSize a"
            unfolding new using release_effect [OF _ _ _ mid] by blast
          from 1 2 r show ?thesis by blast
        qed
      qed
    qed
  qed
qed


lemma ex_target: "getReplacementTargetInstanceID (exSpot t) = Some t"
  by (simp add: getReplacementTargetInstanceID_def exSpot_def exInstance_def)

lemma ex_get: "get exRegistry ''i-od'' = Some exSource" "get exRegistry ''i-new'' = None"
  "get (exGroupRegistry t) ''i-od'' = Some t"
  by (simp_all add: get_def exRegistry_def exGroupRegistry_def)

lemma ex_scan:
  "scanInstance (exServices e1 e2 e3) tr ''i-od'' reg = Inr reg"
  "scanInstance (exServices e1 e2 e3) tr ''i-new'' reg = Inr reg"
  "scanInstance (exServices e1 e2 e3) tr ''i-gone'' reg = Inl (ApiError ''not found'')"
  by (simp_all add: exServices_def)

lemma ex_belongs:
  "belongsToEnabledASG (exServices e1 e2 e3) tr (exTarget 5 None) =
     Inr (True, exTarget (1 / 10) (Some exLoadedGroup))"
  by (simp add: belongsToEnabledASG_def belongsToAnASG_def exTarget_def exInstance_def
      exRegion_def exGroup_def exLoadedGroup_def exServices_def exType_def exPrices_def Let_def)

lemma ex_should:
  "shouldBeReplacedWithSpot (exServices e1 e2 e3) tr (exTarget 5 None) =
     (tr @ [DescribeInstanceAttribute ''disableApiTermination'' ''i-od''],
      exTarget (1 / 10) (Some exLoadedGroup), Inr True)"
proof -
  have p: "isProtectedFromTermination (exServices e1 e2 e3) tr (exTarget 5 None) =
      (tr @ [DescribeInstanceAttribute ''disableApiTermination'' ''i-od''], False, None)"
    by (simp add: isProtectedFromTermination_def exServices_def exTarget_def exInstance_def)
  have n: "asgNeedsReplacement (exServices e1 e2 e3) tr' (exTarget (1 / 10) (Some exLoadedGroup)) =
      Inr True" for tr'
    by (simp add: asgNeedsReplacement_def exTarget_def exServices_def)
  have q: "\<not> isSpot (exTarget (1 / 10) (Some exLoadedGroup))"
    "\<not> isProtectedFromScaleIn (exTarget (1 / 10) (Some exLoadedGroup))"
    by (simp_all add: isSpot_def isProtectedFromScaleIn_def exTarget_def exInstance_def
        exLoadedGroup_def)
  show ?thesis
    by (simp add: shouldBeReplacedWithSpot_def p ex_belongs n q)
qed

text \<open>A target without the group tag is not replaced: the spot instance is terminated
  and nothing is suspended.\<close>

lemma ex_untagged_target_not_replaced:
  "swapWithGroupMember (exServices None None None) [] exRegistry (exSpot ''i-od'') (exGroup 2 2) =
     ([ScanInstance ''i-od'', DescribeInstanceAttribute ''disableApiTermination'' ''i-od'',
       TerminateInstances [''i-spot'']],
      exRegistry, Inl (TargetShouldNotBeReplaced ''i-od''))"
proof -
  have s: "shouldBeReplacedWithSpot (exServices None None None) tr exSource =
      (tr @ [DescribeInstanceAttribute ''disableApiTermination'' ''i-od''], exSource, Inr False)"
    for tr
    by (simp add: shouldBeReplacedWithSpot_def isProtectedFromTermination_def
        belongsToEnabledASG_def belongsToAnASG_def exServices_def exSource_def exInstance_def)
  have c: "canTerminate (exSpot ''i-od'')" "InstanceId (exSpot ''i-od'') = ''i-spot''"
    by (simp_all add: canTerminate_def exSpot_def exInstance_def InstanceStateNameTerminated_def
        InstanceStateNameShuttingDown_def)
  have r: "exRegistry\<lparr>catalog := (catalog exRegistry)(''i-od'' \<mapsto> exSource)\<rparr> = exRegistry"
    by (simp add: exRegistry_def)
  show ?thesis
    by (simp add: swap_not_replaced [OF ex_target ex_scan(1) ex_get(1) s] c r)
qed

text \<open>A target that the loaded group lists as protected from scale-in is not replaced.\<close>

lemma ex_protected_target_not_replaced:
  "snd (snd (swapWithGroupMember
       ((exServices None None None)
          \<lparr>asg_scanInstances :=
             (\<lambda>tr g. g\<lparr>Instances := [\<lparr>member_InstanceId = ''i-od'',
                                          member_ProtectedFromScaleIn = True\<rparr>]\<rparr>)\<rparr>)
       [] (exGroupRegistry (exTarget 5 None)) (exSpot ''i-od'') (exGroup 2 2))) =
     Inl (TargetShouldNotBeReplaced ''i-od'')"
  by (simp add: swapWithGroupMember_def ex_target get_def exGroupRegistry_def
      shouldBeReplacedWithSpot_def isProtectedFromTermination_def belongsToEnabledASG_def
      belongsToAnASG_def asgNeedsReplacement_def isSpot_def isProtectedFromScaleIn_def
      exServices_def exTarget_def exInstance_def exRegion_def exGroup_def Let_def)

lemma ex_swap:
  "swapWithGroupMember (exServices None e2 e3) [] (exGroupRegistry (exTarget 5 None))
     (exSpot ''i-od'') (exGroup 2 2) =
     ([ScanInstance ''i-od'', DescribeInstanceAttribute ''disableApiTermination'' ''i-od'',
       SuspendProcesses ''web'', SetAutoScalingMaxSize ''web'' 3,
       AttachInstances ''web'' ''i-spot'' True] @
      (if e2 \<noteq> None then [TerminateInstances [''i-spot'']]
       else [TerminateInstanceInAutoScalingGroup ''i-od'' True True]) @
      [SetAutoScalingMaxSize ''web'' 2, ResumeProcesses ''web''],
      exGroupRegistry (exTarget (1 / 10) (Some exLoadedGroup)),
      if e2 \<noteq> None then Inl (AttachFailed ''i-spot'')
      else if e3 \<noteq> None then Inl (TerminateFailed ''i-od'')
      else Inr (exTarget (1 / 10) (Some exLoadedGroup)))"
proof -
  have c: "canTerminate (exSpot ''i-od'')"
    by (simp add: canTerminate_def exSpot_def exInstance_def InstanceStateNameTerminated_def
        InstanceStateNameShuttingDown_def)
  have n: "asg_name (exGroup 2 2) = ''web''" "InstanceId (exSpot ''i-od'') = ''i-spot''"
    by (simp_all add: exGroup_def exSpot_def exInstance_def)
  have d: "deferredCalls (exGroup 2 2) = [SetAutoScalingMaxSize ''web'' 2, ResumeProcesses ''web'']"
    "raiseCalls (exGroup 2 2) = [SetAutoScalingMaxSize ''web'' 3]"
    by (simp_all add: deferredCalls_def raiseCalls_def exGroup_def)
  have r: "(exGroupRegistry t)\<lparr>catalog := (catalog (exGroupRegistry t))(''i-od'' \<mapsto> t')\<rparr> =
      exGroupRegistry t'" for t t'
    by (simp add: exGroupRegistry_def)
  show ?thesis
    by (simp add: swap_protocol [OF ex_target ex_scan(1) ex_get(3) ex_should refl] c n d r)
      (simp add: exServices_def)
qed

theorem swap_releases_group_witness:
  "swapWithGroupMember (exServices None None None) [] (exGroupRegistry (exTarget 5 None))
       (exSpot ''i-od'') (exGroup 2 2) =
     ([ScanInstance ''i-od'', DescribeInstanceAttribute ''disableApiTermination'' ''i-od'',
       SuspendProcesses ''web'', SetAutoScalingMaxSize ''web'' 3,
       AttachInstances ''web'' ''i-spot'' True,
       TerminateInstanceInAutoScalingGroup ''i-od'' True True,
       SetAutoScalingMaxSize ''web'' 2, ResumeProcesses ''web''],
      exGroupRegistry (exTarget (1 / 10) (Some exLoadedGroup)),
      Inr (exTarget (1 / 10) (Some exLoadedGroup))) \<and>
   swapWithGroupMember (exServices None (Some (ApiError ''x'')) None) []
       (exGroupRegistry (exTarget 5 None)) (exSpot ''i-od'') (exGroup 2 2) =
     ([ScanInstance ''i-od'', DescribeInstanceAttribute ''disableApiTermination'' ''i-od'',
       SuspendProcesses ''web'', SetAutoScalingMaxSize ''web'' 3,
       AttachInstances ''web'' ''i-spot'' True,
       TerminateInstances [''i-spot''],
       SetAutoScalingMaxSize ''web'' 2, ResumeProcesses ''web''],
      exGroupRegistry (exTarget (1 / 10) (Some exLoadedGroup)),
      Inl (AttachFailed ''i-spot'')) \<and>
   swapWithGroupMember (exServices None None (Some (ApiError ''y''))) []
       (exGroupRegistry (exTarget 5 None)) (exSpot ''i-od'') (exGroup 2 2) =
     ([ScanInstance ''i-od'', DescribeInstanceAttribute ''disableApiTermination'' ''i-od'',
       SuspendProcesses ''web'', SetAutoScalingMaxSize ''web'' 3,
       AttachInstances ''web'' ''i-spot'' True,
       TerminateInstanceInAutoScalingGroup ''i-od'' True True,
       SetAutoScalingMaxSize ''web'' 2, ResumeProcesses ''web''],
      exGroupRegistry (exTarget (1 / 10) (Some exLoadedGroup)),
      Inl (TerminateFailed ''i-od'')) \<and>
   applyCalls ''web'' (\<lambda>c. True) exGroupState
     [ScanInstance ''i-od'', DescribeInstanceAttribute ''disableApiTermination'' ''i-od'',
      SuspendProcesses ''web'', SetAutoScalingMaxSize ''web'' 3,
      AttachInstances ''web'' ''i-spot'' True,
      TerminateInstanceInAutoScalingGroup ''i-od'' True True,
      SetAutoScalingMaxSize ''web'' 2, ResumeProcesses ''web''] = exGroupState \<and>
   applyCalls ''web'' (\<lambda>c. True) exGroupState
     [ScanInstance ''i-od'', DescribeInstanceAttribute ''disableApiTermination'' ''i-od'',
      SuspendProcesses ''web'', SetAutoScalingMaxSize ''web'' 3,
      AttachInstances ''web'' ''i-spot'' True,
      TerminateInstances [''i-spot''],
      SetAutoScalingMaxSize ''web'' 2, ResumeProcesses ''web''] = exGroupState"
proof -
  let ?ok = "[ScanInstance ''i-od'', DescribeInstanceAttribute ''disableApiTermination'' ''i-od'',
       SuspendProcesses ''web'', SetAutoScalingMaxSize ''web'' 3,
       AttachInstances ''web'' ''i-spot'' True,
       TerminateInstanceInAutoScalingGroup ''i-od'' True True,
       SetAutoScalingMaxSize ''web'' 2, ResumeProcesses ''web'']"
  let ?af = "[ScanInstance ''i-od'', DescribeInstanceAttribute ''disableApiTermination'' ''i-od'',
       SuspendProcesses ''web'', SetAutoScalingMaxSize ''web'' 3,
       AttachInstances ''web'' ''i-spot'' True,
       TerminateInstances [''i-spot''],
       SetAutoScalingMaxSize ''web'' 2, ResumeProcesses ''web'']"
  let ?reg = "exGroupRegistry (exTarget 5 None)"
  let ?reg' = "exGroupRegistry (exTarget (1 / 10) (Some exLoadedGroup))"
  have g: "asg_name (exGroup 2 2) = ''web''" "MaxSize (exGroup 2 2) = 2"
    by (simp_all add: exGroup_def)
  have h: "groupMaxSize exGroupState = MaxSize (exGroup 2 2) \<and>
      (\<lambda>c. True) (ResumeProcesses (asg_name (exGroup 2 2))) \<and>
      (DesiredCapacity (exGroup 2 2) = MaxSize (exGroup 2 2) \<longrightarrow>
         (\<lambda>c. True) (SetAutoScalingMaxSize (asg_name (exGroup 2 2)) (MaxSize (exGroup 2 2))))"
    by (simp add: exGroupState_def exGroup_def)
  have r1: "swapWithGroupMember (exServices None None None) [] ?reg (exSpot ''i-od'')
      (exGroup 2 2) = (?ok, ?reg', Inr (exTarget (1 / 10) (Some exLoadedGroup)))"
    by (simp add: ex_swap)
  have r2: "swapWithGroupMember (exServices None (Some (ApiError ''x'')) None) [] ?reg
      (exSpot ''i-od'') (exGroup 2 2) = (?af, ?reg', Inl (AttachFailed ''i-spot''))"
    by (simp add: ex_swap)
  have r3: "swapWithGroupMember (exServices None None (Some (ApiError ''y''))) [] ?reg
      (exSpot ''i-od'') (exGroup 2 2) = (?ok, ?reg', Inl (TerminateFailed ''i-od''))"
    by (simp add: ex_swap)
  have s1: "SuspendProcesses (asg_name (exGroup 2 2)) \<in> set (drop (length ([]::call list)) ?ok)"
    and s2: "SuspendProcesses (asg_name (exGroup 2 2)) \<in> set (drop (length ([]::call list)) ?af)"
    by (simp_all add: g)
  have eq: "\<And>st. \<not> processesSuspended st \<and> groupMaxSize st = 2 \<Longrightarrow> st = exGroupState"
    by (simp add: exGroupState_def)
  from swap_releases_group [OF r1 s1, THEN conjunct2, THEN conjunct1, rule_format, OF h]
  have a1: "applyCalls ''web'' (\<lambda>c. True) exGroupState ?ok = exGroupState"
    by (intro eq) (simp add: g)
  from swap_releases_group [OF r2 s2, THEN conjunct2, THEN conjunct1, rule_format, OF h]
  have a2: "applyCalls ''web'' (\<lambda>c. True) exGroupState ?af = exGroupState"
    by (intro eq) (simp add: g)
  from r1 r2 r3 a1 a2 show ?thesis by simp
qed

text \<open>
  Claim C5, as amended.  In the swap, whenever the target on-demand instance named by the
  spot instance's launched-for-replacing-instance tag cannot be described, or is absent
  from the registry after the scan, the swap returns an error (could not be described,
  or missing) and issues no call after the scan: the spot replacement is not terminated.
\<close>

theorem swap_target_lookup_fails:
  assumes "getReplacementTargetInstanceID i = Some od"
  shows "(\<forall>e. scanInstance svc tr od reg = Inl e \<longrightarrow>
            swapWithGroupMember svc tr reg i a =
              (tr @ [ScanInstance od], reg, Inl (TargetNotDescribed od))) \<and>
         (\<forall>reg1. scanInstance svc tr od reg = Inr reg1 \<and> get reg1 od = None \<longrightarrow>
            swapWithGroupMember svc tr reg i a =
              (tr @ [ScanInstance od], reg1, Inl (TargetMissing od)))"
  using assms by (simp add: swapWithGroupMember_def)

theorem swap_target_lookup_fails_witness:
  "swapWithGroupMember (exServices None None None) [] exRegistry (exSpot ''i-gone'') (exGroup 2 2) =
     ([ScanInstance ''i-gone''], exRegistry, Inl (TargetNotDescribed ''i-gone'')) \<and>
   swapWithGroupMember (exServices None None None) [] exRegistry (exSpot ''i-new'') (exGroup 2 2) =
     ([ScanInstance ''i-new''], exRegistry, Inl (TargetMissing ''i-new''))"
  using swap_target_lookup_fails [OF ex_target, of "exServices None None None" "[]" "''i-gone''" exRegistry "exGroup 2 2"]
    swap_target_lookup_fails [OF ex_target, of "exServices None None None" "[]" "''i-new''" exRegistry "exGroup 2 2"]
  by (simp add: ex_scan ex_get)

text \<open>
  The claim as stated fails: with a target that cannot be described, and with a target
  that is not in the registry, the swap returns its error and has issued no
  TerminateInstances call for the spot instance.
\<close>

theorem spot_not_terminated_counterexample:
  "swapWithGroupMember (exServices None None None) [] exRegistry (exSpot ''i-gone'') (exGroup 2 2) =
     ([ScanInstance ''i-gone''], exRegistry, Inl (TargetNotDescribed ''i-gone'')) \<and>
   TerminateInstances [''i-spot''] \<notin>
     set (fst (swapWithGroupMember (exServices None None None) [] exRegistry (exSpot ''i-gone'')
            (exGroup 2 2))) \<and>
   swapWithGroupMember (exServices None None None) [] exRegistry (exSpot ''i-new'') (exGroup 2 2) =
     ([ScanInstance ''i-new''], exRegistry, Inl (TargetMissing ''i-new'')) \<and>
   TerminateInstances [''i-spot''] \<notin>
     set (fst (swapWithGroupMember (exServices None None None) [] exRegistry (exSpot ''i-new'')
            (exGroup 2 2)))"
  by (simp add: swap_not_described [OF ex_target ex_scan(3)]
      swap_missing [OF ex_target ex_scan(2) ex_get(2)])

end
